theory Spec2Isabelle
  imports Main
begin

section \<open>Data model\<close>

text \<open>
  The table \<^verbatim>\<open>user_provider_consent\<close> of the migration and the TypeScript interface
  \<^verbatim>\<open>ConsentRecord\<close> of \<^verbatim>\<open>Consent.tsx\<close> have the same nine columns. Identifiers are
  text: what the client sends is read by the input function of the column type
  \<^verbatim>\<open>uuid\<close>, and a row holds the text its output function prints (see \<open>uuid_in\<close>).
  Timestamps are points of the database clock,
  counted as natural numbers. The field \<^verbatim>\<open>id\<close> is named \<open>id_c\<close> here, since \<open>id\<close> is
  the identity function of HOL.
\<close>

record ConsentRecord =
  id_c :: string
  user_id :: string
  provider_id :: string
  lab_results :: bool
  medications :: bool
  fitness_data :: bool
  approved :: bool
  created_at :: nat
  updated_at :: nat

type_synonym table = "ConsentRecord list"

section \<open>Row level security\<close>

text \<open>
  The four policies of the migration, as data. All of them are granted
  \<^verbatim>\<open>TO authenticated\<close> and all carry the one expression \<^verbatim>\<open>auth.uid() = user_id\<close>, as
  \<^verbatim>\<open>USING\<close> for SELECT, UPDATE and DELETE and as \<^verbatim>\<open>WITH CHECK\<close> for INSERT.
\<close>

datatype command = FOR_SELECT | FOR_INSERT | FOR_UPDATE | FOR_DELETE

datatype role = anon | authenticated

datatype principal = Anonymous | Authenticated string

datatype expr = AuthUidEqUserId

record policy =
  pol_name :: string
  pol_cmd :: command
  pol_role :: role
  pol_using :: "expr option"
  pol_check :: "expr option"

definition policies :: "policy list" where
  "policies =
    [\<lparr>pol_name = ''Users can read their own consent data'', pol_cmd = FOR_SELECT,
      pol_role = authenticated, pol_using = Some AuthUidEqUserId, pol_check = None\<rparr>,
     \<lparr>pol_name = ''Users can update their own consent data'', pol_cmd = FOR_UPDATE,
      pol_role = authenticated, pol_using = Some AuthUidEqUserId, pol_check = None\<rparr>,
     \<lparr>pol_name = ''Users can insert their own consent data'', pol_cmd = FOR_INSERT,
      pol_role = authenticated, pol_using = None, pol_check = Some AuthUidEqUserId\<rparr>,
     \<lparr>pol_name = ''Users can delete their own consent data'', pol_cmd = FOR_DELETE,
      pol_role = authenticated, pol_using = Some AuthUidEqUserId, pol_check = None\<rparr>]"

text \<open>\<^verbatim>\<open>auth.uid()\<close> is the identifier in the request's token, NULL without one.\<close>

fun auth_uid :: "principal \<Rightarrow> string option" where
  "auth_uid Anonymous = None"
| "auth_uid (Authenticated u) = Some u"

fun role_of :: "principal \<Rightarrow> role" where
  "role_of Anonymous = anon"
| "role_of (Authenticated u) = authenticated"

text \<open>
  A comparison with NULL is not true in SQL, so the expression fails for a request
  without an identifier.
\<close>

fun eval_expr :: "expr \<Rightarrow> principal \<Rightarrow> ConsentRecord \<Rightarrow> bool" where
  "eval_expr AuthUidEqUserId pr r =
     (case auth_uid pr of None \<Rightarrow> False | Some u \<Rightarrow> u = user_id r)"

text \<open>
  The expression a policy applies to a row: \<^verbatim>\<open>WITH CHECK\<close> for the candidate row of an
  INSERT, \<^verbatim>\<open>USING\<close> for the existing row of the other commands.
\<close>

definition pol_expr :: "policy \<Rightarrow> expr option" where
  "pol_expr p = (if pol_cmd p = FOR_INSERT then pol_check p else pol_using p)"

text \<open>
  With row level security enabled a row is refused unless some policy for the command
  and the role admits it.
\<close>

definition policy_check :: "command \<Rightarrow> principal \<Rightarrow> ConsentRecord \<Rightarrow> bool" where
  "policy_check cmd pr r =
     list_ex (\<lambda>p. pol_cmd p = cmd \<and> pol_role p = role_of pr \<and>
                   (case pol_expr p of None \<Rightarrow> False | Some e \<Rightarrow> eval_expr e pr r))
             policies"

section \<open>The realtime handler of the consent page\<close>

text \<open>
  \<^verbatim>\<open>Consent.tsx\<close> subscribes to \<^verbatim>\<open>postgres_changes\<close> with \<^verbatim>\<open>event: '*'\<close>, so a payload has
  one of three event types. An INSERT and an UPDATE carry the row in \<^verbatim>\<open>payload.new\<close>; of
  a DELETE the handler reads \<^verbatim>\<open>payload.old.id\<close> only.
\<close>

datatype change = INSERT ConsentRecord | UPDATE ConsentRecord | DELETE string

text \<open>
  The callback of the subscription, as the function it passes to \<^verbatim>\<open>setUserConsents\<close>:
  the mirror \<^verbatim>\<open>userConsents\<close> before, the mirror after.
\<close>

fun on_postgres_changes :: "change \<Rightarrow> ConsentRecord list \<Rightarrow> ConsentRecord list" where
  "on_postgres_changes (INSERT new) prev = prev @ [new]"
| "on_postgres_changes (UPDATE new) prev =
     map (\<lambda>consent. if id_c consent = id_c new then new else consent) prev"
| "on_postgres_changes (DELETE old_id) prev =
     filter (\<lambda>consent. id_c consent \<noteq> old_id) prev"

section \<open>The table behind the client's requests\<close>

text \<open>
  What the database does with the requests the two pages send, as far as the migration
  fixes it: the column types and defaults, the primary key, the unique index on
  \<^verbatim>\<open>(user_id, provider_id)\<close>, the policies and the trigger. A request either fails with
  an error and changes nothing, or yields the new table. The reference from \<^verbatim>\<open>user_id\<close>
  to \<^verbatim>\<open>auth.users\<close> is outside the migration's own tables and is not modelled.
\<close>

datatype error =
    invalid_text_representation
  | insufficient_privilege
  | unique_violation string
  | fetch_failed

text \<open>
  The JSON objects the client passes to \<^verbatim>\<open>insert\<close> and \<^verbatim>\<open>upsert\<close>. Every one of them
  has \<^verbatim>\<open>user_id\<close> and \<^verbatim>\<open>provider_id\<close>; a key whose value is \<^verbatim>\<open>undefined\<close> is left out
  of the JSON, so the four boolean columns are optional. No call site passes \<^verbatim>\<open>id\<close>,
  \<^verbatim>\<open>created_at\<close> or \<^verbatim>\<open>updated_at\<close>.
\<close>

record payload =
  p_user_id :: string
  p_provider_id :: string
  p_lab_results :: "bool option"
  p_medications :: "bool option"
  p_fitness_data :: "bool option"
  p_approved :: "bool option"

text \<open>The object passed to \<^verbatim>\<open>update\<close>: boolean columns only (\<^verbatim>\<open>{ approved: true }\<close>).\<close>

record patch =
  u_lab_results :: "bool option"
  u_medications :: "bool option"
  u_fitness_data :: "bool option"
  u_approved :: "bool option"

datatype column = col_id | col_user_id | col_provider_id

fun column_value :: "column \<Rightarrow> ConsentRecord \<Rightarrow> string" where
  "column_value col_id r = id_c r"
| "column_value col_user_id r = user_id r"
| "column_value col_provider_id r = provider_id r"

text \<open>
  The columns \<^verbatim>\<open>id\<close>, \<^verbatim>\<open>user_id\<close> and \<^verbatim>\<open>provider_id\<close> have type \<^verbatim>\<open>uuid\<close>. PostgreSQL reads
  a uuid from text as sixteen bytes of two hexadecimal digits each, in either case, with
  an optional hyphen after any group of four digits and optional braces around the
  whole; it prints lower-case digits in groups of eight, four, four, four and twelve.
  Two texts of one uuid are one value to the primary key, the unique index and the
  policies, so a row holds the printed text. \<open>xdigit\<close> gives the lower-case form of a
  hexadecimal digit; \<open>uuid_bytes n\<close> reads \<open>n\<close> bytes, the last \<open>n\<close> of the sixteen.
\<close>

definition xdigit :: "char \<Rightarrow> char option" where
  "xdigit = map_of (zip ''0123456789abcdefABCDEF'' ''0123456789abcdefabcdef'')"

fun uuid_bytes :: "nat \<Rightarrow> string \<Rightarrow> (string \<times> string) option" where
  "uuid_bytes 0 src = Some ([], src)"
| "uuid_bytes (Suc n) (a # b # src) =
     (case (xdigit a, xdigit b) of
        (Some x, Some y) \<Rightarrow>
          map_option (\<lambda>(ds, rest). (x # y # ds, rest))
            (uuid_bytes n (if even n \<and> 0 < n \<and> take 1 src = ''-'' then drop 1 src else src))
      | _ \<Rightarrow> None)"
| "uuid_bytes (Suc n) src = None"

definition uuid_out :: "string \<Rightarrow> string" where
  "uuid_out ds =
     take 8 ds @ ''-'' @ take 4 (drop 8 ds) @ ''-'' @ take 4 (drop 12 ds) @ ''-'' @
     take 4 (drop 16 ds) @ ''-'' @ drop 20 ds"

definition uuid_in :: "string \<Rightarrow> string option" where
  "uuid_in source =
     (let braces = (take 1 source = ''{'');
          src = (if braces then drop 1 source else source)
      in case uuid_bytes 16 src of
           None \<Rightarrow> None
         | Some (ds, rest) \<Rightarrow>
             if rest = (if braces then ''}'' else []) then Some (uuid_out ds) else None)"

text \<open>
  A chain of \<^verbatim>\<open>.eq(column, value)\<close> filters. The values are read as uuids, all of them or
  the request fails; a row matches when its columns hold the values read.
\<close>

fun read_filters :: "(column \<times> string) list \<Rightarrow> (column \<times> string) list option" where
  "read_filters [] = Some []"
| "read_filters ((c, v) # fs) =
     (case uuid_in v of
        None \<Rightarrow> None
      | Some w \<Rightarrow> map_option (\<lambda>gs. (c, w) # gs) (read_filters fs))"

definition matches :: "(column \<times> string) list \<Rightarrow> ConsentRecord \<Rightarrow> bool" where
  "matches fs r = list_all (\<lambda>(c, v). column_value c r = v) fs"

text \<open>The payload with its two uuid columns read, if both are the text of a uuid.\<close>

definition read_payload :: "payload \<Rightarrow> payload option" where
  "read_payload p =
     (case (uuid_in (p_user_id p), uuid_in (p_provider_id p)) of
        (Some uid, Some pid) \<Rightarrow> Some (p\<lparr>p_user_id := uid, p_provider_id := pid\<rparr>)
      | _ \<Rightarrow> None)"

definition or_default :: "bool option \<Rightarrow> bool \<Rightarrow> bool" where
  "or_default v d = (case v of None \<Rightarrow> d | Some b \<Rightarrow> b)"

text \<open>
  The row an INSERT proposes, from the payload as read: \<^verbatim>\<open>id\<close> from
  \<^verbatim>\<open>gen_random_uuid()\<close> (\<open>gen\<close>, a uuid as the database prints it), the boolean columns
  \<^verbatim>\<open>DEFAULT false\<close>, both timestamps \<^verbatim>\<open>DEFAULT now()\<close>.
\<close>

definition new_row :: "nat \<Rightarrow> string \<Rightarrow> payload \<Rightarrow> ConsentRecord" where
  "new_row now gen p =
     \<lparr>id_c = gen, user_id = p_user_id p, provider_id = p_provider_id p,
      lab_results = or_default (p_lab_results p) False,
      medications = or_default (p_medications p) False,
      fitness_data = or_default (p_fitness_data p) False,
      approved = or_default (p_approved p) False,
      created_at = now, updated_at = now\<rparr>"

text \<open>The trigger function: \<^verbatim>\<open>NEW.updated_at = now(); RETURN NEW;\<close>\<close>

definition update_updated_at_column :: "nat \<Rightarrow> ConsentRecord \<Rightarrow> ConsentRecord" where
  "update_updated_at_column now NEW = NEW\<lparr>updated_at := now\<rparr>"

definition apply_patch :: "patch \<Rightarrow> ConsentRecord \<Rightarrow> ConsentRecord" where
  "apply_patch u r =
     r\<lparr>lab_results := or_default (u_lab_results u) (lab_results r),
       medications := or_default (u_medications u) (medications r),
       fitness_data := or_default (u_fitness_data u) (fitness_data r),
       approved := or_default (u_approved u) (approved r)\<rparr>"

text \<open>
  One row of an UPDATE: the new column values, then the trigger
  \<^verbatim>\<open>BEFORE UPDATE ... FOR EACH ROW\<close>.
\<close>

definition update_row :: "nat \<Rightarrow> patch \<Rightarrow> ConsentRecord \<Rightarrow> ConsentRecord" where
  "update_row now u r = update_updated_at_column now (apply_patch u r)"

definition pkey :: string where
  "pkey = ''user_provider_consent_pkey''"

definition idx_user_provider :: string where
  "idx_user_provider = ''idx_user_provider_consent_user_provider''"

text \<open>
  The unique index compares uuids; the rows hold printed uuids, which are equal as text
  exactly when the uuids are.
\<close>

definition same_pair :: "ConsentRecord \<Rightarrow> ConsentRecord \<Rightarrow> bool" where
  "same_pair a b \<longleftrightarrow> user_id a = user_id b \<and> provider_id a = provider_id b"

text \<open>\<^verbatim>\<open>.select('*')\<close> with filters: the rows the SELECT policy shows that match.\<close>

definition db_select ::
  "principal \<Rightarrow> (column \<times> string) list \<Rightarrow> table \<Rightarrow> error + ConsentRecord list" where
  "db_select pr fs t =
     (case read_filters fs of
        None \<Rightarrow> Inl invalid_text_representation
      | Some gs \<Rightarrow> Inr (filter (\<lambda>r. policy_check FOR_SELECT pr r \<and> matches gs r) t))"

text \<open>
  \<^verbatim>\<open>.insert(p)\<close>: the text of the two uuid columns is read, the proposed row is checked
  against the INSERT policy, then against the primary key and the unique index.
\<close>

definition db_insert ::
  "principal \<Rightarrow> nat \<Rightarrow> string \<Rightarrow> payload \<Rightarrow> table \<Rightarrow> error + table" where
  "db_insert pr now gen p t =
     (case read_payload p of
        None \<Rightarrow> Inl invalid_text_representation
      | Some q \<Rightarrow>
          let new = new_row now gen q in
          if \<not> policy_check FOR_INSERT pr new then Inl insufficient_privilege
          else if \<exists>r \<in> set t. id_c r = id_c new then Inl (unique_violation pkey)
          else if \<exists>r \<in> set t. same_pair r new then Inl (unique_violation idx_user_provider)
          else Inr (t @ [new]))"

text \<open>
  \<^verbatim>\<open>.update(u)\<close> with filters. The rows it touches are those the SELECT and UPDATE
  policies show; the others are skipped without an error. The UPDATE policy has no
  \<^verbatim>\<open>WITH CHECK\<close>, so its \<^verbatim>\<open>USING\<close> expression is also checked on each new row.
\<close>

definition db_update ::
  "principal \<Rightarrow> nat \<Rightarrow> (column \<times> string) list \<Rightarrow> patch \<Rightarrow> table \<Rightarrow> error + table" where
  "db_update pr now fs u t =
     (case read_filters fs of
        None \<Rightarrow> Inl invalid_text_representation
      | Some gs \<Rightarrow>
          let hit = (\<lambda>r. policy_check FOR_SELECT pr r \<and> policy_check FOR_UPDATE pr r \<and> matches gs r) in
          if \<exists>r \<in> set t. hit r \<and> \<not> policy_check FOR_UPDATE pr (update_row now u r)
          then Inl insufficient_privilege
          else Inr (map (\<lambda>r. if hit r then update_row now u r else r) t))"

text \<open>\<^verbatim>\<open>.delete()\<close> with filters: removes the matching rows the policies show.\<close>

definition db_delete ::
  "principal \<Rightarrow> (column \<times> string) list \<Rightarrow> table \<Rightarrow> error + table" where
  "db_delete pr fs t =
     (case read_filters fs of
        None \<Rightarrow> Inl invalid_text_representation
      | Some gs \<Rightarrow>
          Inr (filter (\<lambda>r. \<not> (policy_check FOR_SELECT pr r \<and> policy_check FOR_DELETE pr r \<and>
                               matches gs r)) t))"

text \<open>
  The columns \<^verbatim>\<open>ON CONFLICT ... DO UPDATE SET\<close> assigns from the proposed row: those of
  the payload, as read.
\<close>

definition set_columns :: "payload \<Rightarrow> ConsentRecord \<Rightarrow> ConsentRecord" where
  "set_columns p r =
     r\<lparr>user_id := p_user_id p, provider_id := p_provider_id p,
       lab_results := or_default (p_lab_results p) (lab_results r),
       medications := or_default (p_medications p) (medications r),
       fitness_data := or_default (p_fitness_data p) (fitness_data r),
       approved := or_default (p_approved p) (approved r)\<rparr>"

text \<open>
  \<^verbatim>\<open>.upsert(p)\<close> as \<^verbatim>\<open>Providers.tsx\<close> calls it, without the \<^verbatim>\<open>onConflict\<close> option: the
  request is an INSERT whose conflict target is the primary key. The payload has no
  \<^verbatim>\<open>id\<close>, so the proposed row gets a generated one. Only a row with that very id is
  updated in place; a row with the same \<^verbatim>\<open>(user_id, provider_id)\<close> under another id is a
  violation of the unique index, as for a plain INSERT.
\<close>

definition db_upsert ::
  "principal \<Rightarrow> nat \<Rightarrow> string \<Rightarrow> payload \<Rightarrow> table \<Rightarrow> error + table" where
  "db_upsert pr now gen p t =
     (case read_payload p of
        None \<Rightarrow> Inl invalid_text_representation
      | Some q \<Rightarrow>
          let new = new_row now gen q in
          if \<not> policy_check FOR_INSERT pr new then Inl insufficient_privilege
          else (case find (\<lambda>r. id_c r = id_c new) t of
            None \<Rightarrow>
              if \<exists>r \<in> set t. same_pair r new then Inl (unique_violation idx_user_provider)
              else Inr (t @ [new])
          | Some old \<Rightarrow>
              if \<not> (policy_check FOR_SELECT pr old \<and> policy_check FOR_UPDATE pr old)
              then Inl insufficient_privilege
              else let upd = update_updated_at_column now (set_columns q old) in
                if \<not> policy_check FOR_UPDATE pr upd then Inl insufficient_privilege
                else if \<exists>r \<in> set t. id_c r \<noteq> id_c old \<and> same_pair r upd
                then Inl (unique_violation idx_user_provider)
                else Inr (map (\<lambda>r. if id_c r = id_c old then upd else r) t)))"

section \<open>The client\<close>

text \<open>
  What a handler takes from its surroundings when it runs: the user of \<^verbatim>\<open>useSupabaseUser\<close> (\<^verbatim>\<open>userData?.id\<close>, absent when nobody is
  logged in), the value of \<^verbatim>\<open>Math.random().toString(36).substr(2, 9)\<close>, of
  \<^verbatim>\<open>new Date().toISOString()\<close>, of the database's \<^verbatim>\<open>now()\<close> and \<^verbatim>\<open>gen_random_uuid()\<close>,
  and what becomes of the request on its way.
\<close>

datatype link = Delivered | Unreachable | Raises

record env =
  userData :: "string option"
  random_id :: string
  date_iso :: string
  db_now :: nat
  db_uuid :: string
  link :: link

datatype status = active | pending | inactive

record Provider =
  id_p :: string
  name :: string
  category :: string
  status :: status
  dataTypes :: "string list"
  lastSync :: string
  logo :: string
  permissions :: "(string \<times> bool) list"

record newProvider =
  np_name :: string
  np_category :: string
  np_dataTypes :: "string list"

record accessRequest =
  purpose :: string
  ar_dataTypes :: "string list"
  duration :: string
  additionalNotes :: string

text \<open>
  The state of the two pages (\<^verbatim>\<open>providersList\<close> and \<^verbatim>\<open>isAccessModalOpen\<close> of
  \<^verbatim>\<open>Providers.tsx\<close>, \<^verbatim>\<open>userConsents\<close> of \<^verbatim>\<open>Consent.tsx\<close>) and of what they act on: the
  table, the browser console, and the requests sent so far.
\<close>

record state =
  providersList :: "Provider list"
  isAccessModalOpen :: bool
  userConsents :: "ConsentRecord list"
  database :: table
  console :: "string list"
  requests :: "string list"

text \<open>How a handler's promise settles, for whoever awaits it.\<close>

datatype settled = Resolved | Rejected

text \<open>What an awaited request gives the handler: \<^verbatim>\<open>{ data, error }\<close>, or an exception.\<close>

datatype 'a outcome = Returned "error + 'a" | Threw

text \<open>
  The client sends the token of the session \<^verbatim>\<open>userData\<close> was read from, and
  \<^verbatim>\<open>auth.uid()\<close> is the uuid of that user.
\<close>

definition principal_of :: "env \<Rightarrow> principal" where
  "principal_of e =
     (case userData e of
        None \<Rightarrow> Anonymous
      | Some uid \<Rightarrow> (case uuid_in uid of None \<Rightarrow> Authenticated uid | Some v \<Rightarrow> Authenticated v))"

text \<open>
  A writing request: it is recorded as sent; when it is delivered the database runs it,
  and a failed one leaves the table as it was.
\<close>

definition send :: "env \<Rightarrow> string \<Rightarrow> (table \<Rightarrow> error + table) \<Rightarrow> state \<Rightarrow> unit outcome \<times> state" where
  "send e kind run s =
     (let s1 = s\<lparr>requests := requests s @ [kind]\<rparr> in
      case link e of
        Raises \<Rightarrow> (Threw, s1)
      | Unreachable \<Rightarrow> (Returned (Inl fetch_failed), s1)
      | Delivered \<Rightarrow>
          (case run (database s) of
             Inl err \<Rightarrow> (Returned (Inl err), s1)
           | Inr t \<Rightarrow> (Returned (Inr ()), s1\<lparr>database := t\<rparr>)))"

definition fetch ::
  "env \<Rightarrow> (table \<Rightarrow> error + ConsentRecord list) \<Rightarrow> state \<Rightarrow> ConsentRecord list outcome \<times> state" where
  "fetch e run s =
     (let s1 = s\<lparr>requests := requests s @ [''select'']\<rparr> in
      case link e of
        Raises \<Rightarrow> (Threw, s1)
      | Unreachable \<Rightarrow> (Returned (Inl fetch_failed), s1)
      | Delivered \<Rightarrow> (Returned (run (database s)), s1))"

definition console_error :: "string \<Rightarrow> state \<Rightarrow> state" where
  "console_error msg s = s\<lparr>console := console s @ [msg]\<rparr>"

text \<open>
  The tail all five writing handlers share: \<^verbatim>\<open>if (error) console.error(...)\<close> inside
  \<^verbatim>\<open>try\<close>, \<^verbatim>\<open>console.error(...)\<close> in \<^verbatim>\<open>catch\<close>, and nothing returned or thrown.
\<close>

definition log_only :: "string \<Rightarrow> string \<Rightarrow> unit outcome \<times> state \<Rightarrow> state \<times> settled" where
  "log_only on_error on_catch r =
     (case r of
        (Returned (Inr _), s) \<Rightarrow> (s, Resolved)
      | (Returned (Inl err), s) \<Rightarrow> (console_error on_error s, Resolved)
      | (Threw, s) \<Rightarrow> (console_error on_catch s, Resolved))"

text \<open>The objects the three \<^verbatim>\<open>insert\<close> and \<^verbatim>\<open>upsert\<close> calls pass, and the one \<^verbatim>\<open>update\<close>.\<close>

definition add_provider_payload :: "string \<Rightarrow> string \<Rightarrow> payload" where
  "add_provider_payload uid providerId =
     \<lparr>p_user_id = uid, p_provider_id = providerId, p_lab_results = None,
      p_medications = None, p_fitness_data = None, p_approved = Some False\<rparr>"

definition permissions_payload :: "string \<Rightarrow> string \<Rightarrow> (string \<times> bool) list \<Rightarrow> payload" where
  "permissions_payload uid providerId perms =
     \<lparr>p_user_id = uid, p_provider_id = providerId,
      p_lab_results = map_of perms ''labResults'',
      p_medications = map_of perms ''medications'',
      p_fitness_data = map_of perms ''fitnessData'',
      p_approved = Some True\<rparr>"

definition access_request_payload :: "string \<Rightarrow> accessRequest \<Rightarrow> payload" where
  "access_request_payload uid data =
     \<lparr>p_user_id = uid, p_provider_id = ''generic-provider'',
      p_lab_results = Some (''Lab Results'' \<in> set (ar_dataTypes data)),
      p_medications = Some (''Prescriptions'' \<in> set (ar_dataTypes data)),
      p_fitness_data = Some (''Fitness Data'' \<in> set (ar_dataTypes data)),
      p_approved = Some True\<rparr>"

definition approve_patch :: patch where
  "approve_patch =
     \<lparr>u_lab_results = None, u_medications = None, u_fitness_data = None, u_approved = Some True\<rparr>"

text \<open>The six requests of the two pages, as the database runs them.\<close>

definition add_provider_request :: "env \<Rightarrow> string \<Rightarrow> table \<Rightarrow> error + table" where
  "add_provider_request e uid =
     db_insert (principal_of e) (db_now e) (db_uuid e) (add_provider_payload uid (random_id e))"

definition permissions_request ::
  "env \<Rightarrow> string \<Rightarrow> string \<Rightarrow> (string \<times> bool) list \<Rightarrow> table \<Rightarrow> error + table" where
  "permissions_request e uid providerId perms =
     db_upsert (principal_of e) (db_now e) (db_uuid e) (permissions_payload uid providerId perms)"

definition delete_provider_request :: "env \<Rightarrow> string \<Rightarrow> string \<Rightarrow> table \<Rightarrow> error + table" where
  "delete_provider_request e uid providerId =
     db_delete (principal_of e) [(col_user_id, uid), (col_provider_id, providerId)]"

definition access_request :: "env \<Rightarrow> string \<Rightarrow> accessRequest \<Rightarrow> table \<Rightarrow> error + table" where
  "access_request e uid data =
     db_insert (principal_of e) (db_now e) (db_uuid e) (access_request_payload uid data)"

definition deny_request :: "env \<Rightarrow> ConsentRecord \<Rightarrow> table \<Rightarrow> error + table" where
  "deny_request e consent = db_delete (principal_of e) [(col_id, id_c consent)]"

definition approve_request :: "env \<Rightarrow> ConsentRecord \<Rightarrow> table \<Rightarrow> error + table" where
  "approve_request e consent =
     db_update (principal_of e) (db_now e) [(col_id, id_c consent)] approve_patch"

subsection \<open>\<^verbatim>\<open>Providers.tsx\<close>\<close>

definition initialProviders :: "Provider list" where
  "initialProviders =
     [\<lparr>id_p = ''1'', name = ''Memorial Hospital'', category = ''Healthcare Provider'',
       status = active, dataTypes = [''Medical Records'', ''Lab Results'', ''Prescriptions''],
       lastSync = ''2024-03-15T10:30:00Z'', logo = ''/elroi-logo.svg'',
       permissions = [(''labResults'', True), (''medications'', True), (''fitnessData'', True)]\<rparr>,
      \<lparr>id_p = ''2'', name = ''HealthTrack Pharmacy'', category = ''Pharmacy'',
       status = pending,
       dataTypes = [''Medication History'', ''Prescription Records'', ''Insurance Claims''],
       lastSync = ''2024-03-14T15:45:00Z'', logo = ''/elroi-logo.svg'',
       permissions = [(''labResults'', False), (''medications'', True), (''fitnessData'', True)]\<rparr>,
      \<lparr>id_p = ''3'', name = ''Wellness Center'', category = ''Fitness & Wellness'',
       status = inactive,
       dataTypes = [''Fitness Metrics'', ''Nutrition Data'', ''Wellness Assessments''],
       lastSync = ''2024-03-13T09:15:00Z'', logo = ''/elroi-logo.svg'',
       permissions = [(''labResults'', True), (''medications'', False), (''fitnessData'', True)]\<rparr>]"

definition handleAddProvider :: "env \<Rightarrow> newProvider \<Rightarrow> state \<Rightarrow> state \<times> settled" where
  "handleAddProvider e np s =
     (let providerId = random_id e;
          provider = \<lparr>id_p = providerId, name = np_name np, category = np_category np,
                      status = pending, dataTypes = np_dataTypes np, lastSync = date_iso e,
                      logo = ''/elroi-logo.svg'',
                      permissions = [(''labResults'', False), (''medications'', False),
                                     (''fitnessData'', False)]\<rparr>;
          s1 = s\<lparr>providersList := providersList s @ [provider]\<rparr>
      in case userData e of
           None \<Rightarrow> (s1, Resolved)
         | Some uid \<Rightarrow>
             log_only ''Error creating consent record:'' ''Failed to create consent record:''
               (send e ''insert'' (add_provider_request e uid) s1))"

definition handleUpdatePermissions ::
  "env \<Rightarrow> string \<Rightarrow> (string \<times> bool) list \<Rightarrow> state \<Rightarrow> state \<times> settled" where
  "handleUpdatePermissions e providerId perms s =
     (let s1 = s\<lparr>providersList :=
                   map (\<lambda>provider. if id_p provider = providerId
                                    then provider\<lparr>permissions := perms\<rparr> else provider)
                       (providersList s)\<rparr>
      in case userData e of
           None \<Rightarrow> (s1, Resolved)
         | Some uid \<Rightarrow>
             log_only ''Error updating provider permissions:''
                      ''Failed to update provider permissions:''
               (send e ''upsert'' (permissions_request e uid providerId perms) s1))"

definition handleDeleteProvider :: "env \<Rightarrow> string \<Rightarrow> state \<Rightarrow> state \<times> settled" where
  "handleDeleteProvider e providerId s =
     (let s1 = s\<lparr>providersList := filter (\<lambda>provider. id_p provider \<noteq> providerId) (providersList s),
                 isAccessModalOpen := False\<rparr>
      in case userData e of
           None \<Rightarrow> (s1, Resolved)
         | Some uid \<Rightarrow>
             log_only ''Error deleting provider consent:'' ''Failed to delete provider consent:''
               (send e ''delete'' (delete_provider_request e uid providerId) s1))"

subsection \<open>\<^verbatim>\<open>Consent.tsx\<close>\<close>

definition fetchConsentRecords :: "env \<Rightarrow> state \<Rightarrow> state \<times> settled" where
  "fetchConsentRecords e s =
     (case userData e of
        None \<Rightarrow> (s, Resolved)
      | Some uid \<Rightarrow>
          (case fetch e (db_select (principal_of e) [(col_user_id, uid)]) s of
             (Returned (Inl err), s1) \<Rightarrow> (console_error ''Error fetching consent records:'' s1, Resolved)
           | (Returned (Inr data), s1) \<Rightarrow> (s1\<lparr>userConsents := data\<rparr>, Resolved)
           | (Threw, s1) \<Rightarrow> (console_error ''Failed to fetch consent records:'' s1, Resolved)))"

text \<open>The subscription is set up only \<^verbatim>\<open>if (userData?.id)\<close>; without it no event arrives.\<close>

definition deliver :: "env \<Rightarrow> change \<Rightarrow> state \<Rightarrow> state \<times> settled" where
  "deliver e ev s =
     (case userData e of
        None \<Rightarrow> (s, Resolved)
      | Some uid \<Rightarrow> (s\<lparr>userConsents := on_postgres_changes ev (userConsents s)\<rparr>, Resolved))"

definition handleAccessRequest :: "env \<Rightarrow> accessRequest \<Rightarrow> state \<Rightarrow> state \<times> settled" where
  "handleAccessRequest e data s =
     (case userData e of
        None \<Rightarrow> (console_error ''User not authenticated'' s, Resolved)
      | Some uid \<Rightarrow>
          log_only ''Error creating consent record:'' ''Failed to create consent record:''
            (send e ''insert'' (access_request e uid data) s))"

text \<open>
  The \<^verbatim>\<open>onClick\<close> of the Deny and of the Approve button of one pending consent. Neither
  looks at \<^verbatim>\<open>userData\<close>.
\<close>

definition deny_onClick :: "env \<Rightarrow> ConsentRecord \<Rightarrow> state \<Rightarrow> state \<times> settled" where
  "deny_onClick e consent s =
     log_only ''Error deleting consent record:'' ''Failed to delete consent record:''
       (send e ''delete'' (deny_request e consent) s)"

definition approve_onClick :: "env \<Rightarrow> ConsentRecord \<Rightarrow> state \<Rightarrow> state \<times> settled" where
  "approve_onClick e consent s =
     log_only ''Error approving consent record:'' ''Failed to approve consent record:''
       (send e ''update'' (approve_request e consent) s)"

text \<open>
  The buttons exist for the rows the page renders under \<^verbatim>\<open>Access Requests\<close>: those of
  \<^verbatim>\<open>userConsents\<close> that are not approved.
\<close>

definition rendered_requests :: "state \<Rightarrow> ConsentRecord list" where
  "rendered_requests s = filter (\<lambda>consent. \<not> approved consent) (userConsents s)"

text \<open>Everything a user or the subscription can make the two pages do.\<close>

datatype action =
    AddProvider newProvider
  | UpdatePermissions string "(string \<times> bool) list"
  | DeleteProvider string
  | Fetch
  | Change change
  | AccessRequest accessRequest
  | Deny nat
  | Approve nat

fun act :: "env \<Rightarrow> action \<Rightarrow> state \<Rightarrow> state \<times> settled" where
  "act e (AddProvider np) s = handleAddProvider e np s"
| "act e (UpdatePermissions providerId perms) s = handleUpdatePermissions e providerId perms s"
| "act e (DeleteProvider providerId) s = handleDeleteProvider e providerId s"
| "act e Fetch s = fetchConsentRecords e s"
| "act e (Change ev) s = deliver e ev s"
| "act e (AccessRequest data) s = handleAccessRequest e data s"
| "act e (Deny k) s =
     (if k < length (rendered_requests s) then deny_onClick e (rendered_requests s ! k) s
      else (s, Resolved))"
| "act e (Approve k) s =
     (if k < length (rendered_requests s) then approve_onClick e (rendered_requests s ! k) s
      else (s, Resolved))"

text \<open>A run: each action with the surroundings it runs in.\<close>

fun run_actions :: "(env \<times> action) list \<Rightarrow> state \<Rightarrow> state \<times> settled list" where
  "run_actions [] s = (s, [])"
| "run_actions ((e, a) # rest) s =
     (case act e a s of (s1, r) \<Rightarrow>
        (case run_actions rest s1 of (s2, rs) \<Rightarrow> (s2, r # rs)))"

text \<open>
  The pages as they are first rendered, \<^verbatim>\<open>useState(initialProviders)\<close>,
  \<^verbatim>\<open>useState(false)\<close> and \<^verbatim>\<open>useState<ConsentRecord[]>([])\<close>, over a given table.
\<close>

definition initial_state :: "table \<Rightarrow> state" where
  "initial_state t =
     \<lparr>providersList = initialProviders, isAccessModalOpen = False, userConsents = [],
      database = t, console = [], requests = []\<rparr>"

text \<open>What the pages show: the React state, without the table and the console.\<close>

definition page :: "state \<Rightarrow> Provider list \<times> bool \<times> ConsentRecord list" where
  "page s = (providersList s, isAccessModalOpen s, userConsents s)"

text \<open>The actions that write to the table.\<close>

fun local_mutation :: "action \<Rightarrow> bool" where
  "local_mutation (AddProvider np) = True"
| "local_mutation (UpdatePermissions providerId perms) = True"
| "local_mutation (DeleteProvider providerId) = True"
| "local_mutation Fetch = False"
| "local_mutation (Change ev) = False"
| "local_mutation (AccessRequest data) = True"
| "local_mutation (Deny k) = True"
| "local_mutation (Approve k) = True"

text \<open>The request an action sends to the table, when it sends one.\<close>

fun request_of :: "env \<Rightarrow> action \<Rightarrow> state \<Rightarrow> (table \<Rightarrow> error + table) option" where
  "request_of e (AddProvider np) s = map_option (add_provider_request e) (userData e)"
| "request_of e (UpdatePermissions providerId perms) s =
     map_option (\<lambda>uid. permissions_request e uid providerId perms) (userData e)"
| "request_of e (DeleteProvider providerId) s =
     map_option (\<lambda>uid. delete_provider_request e uid providerId) (userData e)"
| "request_of e Fetch s = None"
| "request_of e (Change ev) s = None"
| "request_of e (AccessRequest data) s = map_option (\<lambda>uid. access_request e uid data) (userData e)"
| "request_of e (Deny k) s =
     (if k < length (rendered_requests s) then Some (deny_request e (rendered_requests s ! k))
      else None)"
| "request_of e (Approve k) s =
     (if k < length (rendered_requests s) then Some (approve_request e (rendered_requests s ! k))
      else None)"

section \<open>Runs of the database\<close>

text \<open>
  The requests the client sends, each with the principal it is sent for and with the
  values of \<^verbatim>\<open>now()\<close> and \<^verbatim>\<open>gen_random_uuid()\<close> it is run with. A failed request leaves
  the table as it was. The states the table can reach are the runs from the empty table.
\<close>

datatype request =
    Insert payload
  | Upsert payload
  | Update "(column \<times> string) list" patch
  | Delete "(column \<times> string) list"

record call =
  c_principal :: principal
  c_now :: nat
  c_gen :: string
  c_request :: request

definition exec :: "call \<Rightarrow> table \<Rightarrow> error + table" where
  "exec c t =
     (case c_request c of
        Insert p \<Rightarrow> db_insert (c_principal c) (c_now c) (c_gen c) p t
      | Upsert p \<Rightarrow> db_upsert (c_principal c) (c_now c) (c_gen c) p t
      | Update fs u \<Rightarrow> db_update (c_principal c) (c_now c) fs u t
      | Delete fs \<Rightarrow> db_delete (c_principal c) fs t)"

fun run_calls :: "call list \<Rightarrow> table \<Rightarrow> table" where
  "run_calls [] t = t"
| "run_calls (c # cs) t =
     (case exec c t of Inl err \<Rightarrow> run_calls cs t | Inr t1 \<Rightarrow> run_calls cs t1)"

fun chronological :: "nat \<Rightarrow> call list \<Rightarrow> bool" where
  "chronological T [] = True"
| "chronological T (c # cs) = (T \<le> c_now c \<and> chronological (c_now c) cs)"

text \<open>The two uniqueness constraints: the unique index and the primary key.\<close>

definition pair_of :: "ConsentRecord \<Rightarrow> string \<times> string" where
  "pair_of r = (user_id r, provider_id r)"

definition unique_pairs :: "table \<Rightarrow> bool" where
  "unique_pairs t = distinct (map pair_of t)"

definition unique_ids :: "table \<Rightarrow> bool" where
  "unique_ids t = distinct (map id_c t)"

definition lookup :: "string \<Rightarrow> table \<Rightarrow> ConsentRecord option" where
  "lookup i t = find (\<lambda>r. id_c r = i) t"

section \<open>Values to run the definitions on\<close>

text \<open>
  A row with its flags off, created and last updated at time 1.
\<close>

definition example_row :: "string \<Rightarrow> string \<Rightarrow> string \<Rightarrow> bool \<Rightarrow> ConsentRecord" where
  "example_row i u p a =
     \<lparr>id_c = i, user_id = u, provider_id = p, lab_results = False, medications = False,
      fitness_data = False, approved = a, created_at = 1, updated_at = 1\<rparr>"

text \<open>Users, providers and row ids, as the database prints them.\<close>

definition alice :: string where
  "alice = ''a11ce000-0000-4000-8000-000000000001''"

definition clinic :: string where
  "clinic = ''c0ffee00-0000-4000-8000-000000000002''"

definition pharmacy :: string where
  "pharmacy = ''beef0000-0000-4000-8000-000000000003''"

definition row1 :: string where
  "row1 = ''00000000-0000-4000-8000-0000000000f1''"

definition row2 :: string where
  "row2 = ''00000000-0000-4000-8000-0000000000f2''"

definition flags_patch :: patch where
  "flags_patch =
     \<lparr>u_lab_results = Some True, u_medications = None, u_fitness_data = None, u_approved = None\<rparr>"

definition example_calls :: "call list" where
  "example_calls =
     [\<lparr>c_principal = Authenticated alice, c_now = 5, c_gen = row2,
       c_request = Update [(col_id, row1)] approve_patch\<rparr>,
      \<lparr>c_principal = Authenticated alice, c_now = 8, c_gen = row2,
       c_request = Update [(col_id, row1)] flags_patch\<rparr>]"

text \<open>
  Surroundings for the handlers: a logged-in user whose requests are delivered, the same
  user with the database out of reach, and nobody logged in.
\<close>

definition alice_env :: env where
  "alice_env =
     \<lparr>userData = Some alice, random_id = ''k3x9q2m1z'',
      date_iso = ''2024-03-16T09:00:00.000Z'', db_now = 5, db_uuid = row2, link = Delivered\<rparr>"

definition guest_env :: env where
  "guest_env = alice_env\<lparr>userData := None\<rparr>"

definition example_provider :: newProvider where
  "example_provider =
     \<lparr>np_name = ''City Clinic'', np_category = ''Healthcare Provider'',
      np_dataTypes = [''Lab Results'']\<rparr>"

definition example_request :: accessRequest where
  "example_request =
     \<lparr>purpose = ''Treatment'', ar_dataTypes = [''Lab Results'', ''Fitness Data''],
      duration = ''30 days'', additionalNotes = []\<rparr>"

definition guest_run :: "(env \<times> action) list" where
  "guest_run =
     [(guest_env, AddProvider example_provider), (guest_env, AccessRequest example_request),
      (guest_env, Approve 0)]"

definition offline_env :: env where
  "offline_env = alice_env\<lparr>link := Unreachable\<rparr>"

definition two_requests :: "(env \<times> action) list" where
  "two_requests =
     [(alice_env, AccessRequest example_request),
      (alice_env\<lparr>db_now := 9, db_uuid := row1\<rparr>, AccessRequest example_request)]"

definition create_payload :: payload where
  "create_payload =
     \<lparr>p_user_id = alice, p_provider_id = clinic, p_lab_results = Some True,
      p_medications = None, p_fitness_data = None, p_approved = Some False\<rparr>"

section \<open>Facts about the policies\<close>

lemma policy_check_authenticated:
  "policy_check cmd (Authenticated u) r = (u = user_id r)"
  by (cases cmd) (simp_all add: policy_check_def policies_def pol_expr_def)

lemma policy_check_anonymous: "policy_check cmd Anonymous r = False"
  by (cases cmd) (simp_all add: policy_check_def policies_def pol_expr_def)

text \<open>
  Claim C1. A principal authenticated as \<open>u1\<close> is denied read, update and delete on
  every record owned by a different \<open>u2\<close>, and denied the insert of a candidate whose
  owner is not \<open>u1\<close>: for each of the four commands the check allows exactly when the
  principal's identifier equals the owner of the record (of the candidate, for insert).
\<close>

theorem C1_owner_only:
  "(u1 \<noteq> u2 \<longrightarrow> user_id r = u2 \<longrightarrow>
      \<not> policy_check FOR_SELECT (Authenticated u1) r \<and>
      \<not> policy_check FOR_UPDATE (Authenticated u1) r \<and>
      \<not> policy_check FOR_DELETE (Authenticated u1) r \<and>
      \<not> policy_check FOR_INSERT (Authenticated u1) r) \<and>
   (\<forall>cmd. policy_check cmd (Authenticated u1) r \<longleftrightarrow> u1 = user_id r)"
proof -
  have "policy_check cmd (Authenticated u1) r = (u1 = user_id r)" for cmd
    by (cases cmd) (simp_all add: policy_check_def policies_def pol_expr_def)
  then show ?thesis by simp
qed

theorem C1_owner_only_witness:
  "''u1'' \<noteq> ''u2'' \<and> user_id (example_row ''r1'' ''u2'' ''p1'' False) = ''u2'' \<and>
   \<not> policy_check FOR_SELECT (Authenticated ''u1'') (example_row ''r1'' ''u2'' ''p1'' False) \<and>
   \<not> policy_check FOR_UPDATE (Authenticated ''u1'') (example_row ''r1'' ''u2'' ''p1'' False) \<and>
   \<not> policy_check FOR_DELETE (Authenticated ''u1'') (example_row ''r1'' ''u2'' ''p1'' False) \<and>
   \<not> policy_check FOR_INSERT (Authenticated ''u1'') (example_row ''r1'' ''u2'' ''p1'' False) \<and>
   policy_check FOR_SELECT (Authenticated ''u2'') (example_row ''r1'' ''u2'' ''p1'' False)"
  using C1_owner_only [of "''u1''" "''u2''" "example_row ''r1'' ''u2'' ''p1'' False"]
        C1_owner_only [of "''u2''" "''u2''" "example_row ''r1'' ''u2'' ''p1'' False"]
  by (simp add: example_row_def)

section \<open>Facts about the realtime handler\<close>

text \<open>
  Claim C3, as stated: for every mirror and every event, applying the event twice gives
  the mirror that applying it once gives. It fails for INSERT, which appends the row
  whether or not the mirror has it: on the empty mirror one INSERT leaves one row, two
  leave two.
\<close>

theorem C3_insert_twice_counterexample:
  "on_postgres_changes (INSERT (example_row ''r1'' ''u1'' ''p1'' False))
     (on_postgres_changes (INSERT (example_row ''r1'' ''u1'' ''p1'' False)) []) \<noteq>
   on_postgres_changes (INSERT (example_row ''r1'' ''u1'' ''p1'' False)) []"
  by simp

text \<open>
  Claim C3, amended: applying an UPDATE or a DELETE event twice gives the mirror that
  applying it once gives; an INSERT event is appended each time it is applied, so the
  second application adds the row once more.
\<close>

theorem C3_idempotent_update_delete:
  "on_postgres_changes (UPDATE n) (on_postgres_changes (UPDATE n) m) =
     on_postgres_changes (UPDATE n) m \<and>
   on_postgres_changes (DELETE i) (on_postgres_changes (DELETE i) m) =
     on_postgres_changes (DELETE i) m \<and>
   on_postgres_changes (INSERT n) (on_postgres_changes (INSERT n) m) =
     on_postgres_changes (INSERT n) m @ [n]"
proof -
  have "on_postgres_changes (UPDATE n) (on_postgres_changes (UPDATE n) m) =
        on_postgres_changes (UPDATE n) m"
    by (induction m) simp_all
  then show ?thesis by simp
qed

text \<open>
  Claim C4, as stated: the merge goes by record id, inserting the incoming row when its
  id is absent and replacing the row that has it. It fails both ways: an UPDATE whose id
  is absent inserts nothing, and an INSERT whose id is present keeps the old row beside
  the new one.
\<close>

theorem C4_merge_by_id_counterexample:
  "example_row ''r1'' ''u1'' ''p1'' True \<notin>
     set (on_postgres_changes (UPDATE (example_row ''r1'' ''u1'' ''p1'' True)) []) \<and>
   example_row ''r1'' ''u1'' ''p1'' False \<in>
     set (on_postgres_changes (INSERT (example_row ''r1'' ''u1'' ''p1'' True))
            [example_row ''r1'' ''u1'' ''p1'' False])"
  by simp

text \<open>
  Claim C4, amended: the merge goes by event type. An INSERT appends the incoming row,
  whether or not a row with its id is present. An UPDATE keeps the length of the mirror,
  puts the incoming row at every position that holds a row with its id and leaves the
  other positions as they are, so it changes nothing when the id is absent. A DELETE
  keeps exactly the rows whose id is not the deleted one, all rows when the id is absent.
\<close>

theorem C4_merge_by_event:
  "on_postgres_changes (INSERT n) m = m @ [n] \<and>
   length (on_postgres_changes (UPDATE n) m) = length m \<and>
   (\<forall>k < length m. on_postgres_changes (UPDATE n) m ! k =
        (if id_c (m ! k) = id_c n then n else m ! k)) \<and>
   (id_c n \<notin> id_c ` set m \<longrightarrow> on_postgres_changes (UPDATE n) m = m) \<and>
   (\<forall>c. c \<in> set (on_postgres_changes (DELETE i) m) \<longleftrightarrow> c \<in> set m \<and> id_c c \<noteq> i) \<and>
   (i \<notin> id_c ` set m \<longrightarrow> on_postgres_changes (DELETE i) m = m)"
proof -
  have absent: "id_c n \<notin> id_c ` set m \<Longrightarrow> on_postgres_changes (UPDATE n) m = m"
    by (induction m) auto
  have gone: "i \<notin> id_c ` set m \<Longrightarrow> on_postgres_changes (DELETE i) m = m"
    by (induction m) auto
  show ?thesis using absent gone by auto
qed

theorem C4_merge_by_event_witness:
  "(1::nat) < length [example_row ''r1'' ''u1'' ''p1'' False, example_row ''r2'' ''u1'' ''p2'' False] \<and>
   on_postgres_changes (UPDATE (example_row ''r2'' ''u1'' ''p2'' True))
     [example_row ''r1'' ''u1'' ''p1'' False, example_row ''r2'' ''u1'' ''p2'' False] ! 1 =
     example_row ''r2'' ''u1'' ''p2'' True \<and>
   id_c (example_row ''r3'' ''u1'' ''p3'' True) \<notin>
     id_c ` set [example_row ''r1'' ''u1'' ''p1'' False, example_row ''r2'' ''u1'' ''p2'' False] \<and>
   on_postgres_changes (UPDATE (example_row ''r3'' ''u1'' ''p3'' True))
     [example_row ''r1'' ''u1'' ''p1'' False, example_row ''r2'' ''u1'' ''p2'' False] =
     [example_row ''r1'' ''u1'' ''p1'' False, example_row ''r2'' ''u1'' ''p2'' False] \<and>
   example_row ''r1'' ''u1'' ''p1'' False \<in>
     set (on_postgres_changes (DELETE ''r2'')
            [example_row ''r1'' ''u1'' ''p1'' False, example_row ''r2'' ''u1'' ''p2'' False]) \<and>
   ''r3'' \<notin> id_c ` set [example_row ''r1'' ''u1'' ''p1'' False, example_row ''r2'' ''u1'' ''p2'' False]"
  using C4_merge_by_event [of "example_row ''r2'' ''u1'' ''p2'' True"
          "[example_row ''r1'' ''u1'' ''p1'' False, example_row ''r2'' ''u1'' ''p2'' False]" "''r2''"]
        C4_merge_by_event [of "example_row ''r3'' ''u1'' ''p3'' True"
          "[example_row ''r1'' ''u1'' ''p1'' False, example_row ''r2'' ''u1'' ''p2'' False]" "''r3''"]
  by (simp add: example_row_def)

section \<open>Facts about the table\<close>

lemma uuid_examples:
  "uuid_in alice = Some alice" "uuid_in clinic = Some clinic" "uuid_in pharmacy = Some pharmacy"
  "uuid_in row1 = Some row1" "uuid_in row2 = Some row2"
  "uuid_in ''C0FFEE00-0000-4000-8000-000000000002'' = Some clinic"
  "uuid_in ''{c0ffee0000004000-8000000000000002}'' = Some clinic"
  by code_simp+

lemma uuid_bytes_length: "uuid_bytes n src = Some (ds, rest) \<Longrightarrow> 2 * n \<le> length src"
proof (induction n arbitrary: src ds rest)
  case 0
  then show ?case by simp
next
  case (Suc n)
  have "\<exists>a b src1. src = a # b # src1"
  proof (cases src)
    case Nil
    with Suc.prems show ?thesis by simp
  next
    case (Cons a l)
    with Suc.prems show ?thesis by (cases l) simp_all
  qed
  then obtain a b src1 where src: "src = a # b # src1" by blast
  let ?next = "if even n \<and> 0 < n \<and> take 1 src1 = ''-'' then drop 1 src1 else src1"
  from Suc.prems obtain ds1 where "uuid_bytes n ?next = Some (ds1, rest)"
    unfolding src by (auto split: option.splits)
  from Suc.IH [OF this] have "2 * n \<le> length ?next" .
  also have "\<dots> \<le> length src1" by simp
  finally show ?case by (simp add: src)
qed

lemma uuid_in_short: "length s < 32 \<Longrightarrow> uuid_in s = None"
proof (rule ccontr)
  assume short: "length s < 32" and "uuid_in s \<noteq> None"
  then obtain src ds rest where src: "src = s \<or> src = drop 1 s"
    and "uuid_bytes 16 src = Some (ds, rest)"
    by (auto simp: uuid_in_def Let_def split: option.splits if_splits)
  from uuid_bytes_length [OF this(2)] have "32 \<le> length src" by simp
  with src short show False by auto
qed

lemma not_uuid:
  "uuid_in ''generic-provider'' = None" "uuid_in ''k3x9q2m1z'' = None" "uuid_in ''2'' = None"
  by (simp_all add: uuid_in_short)

lemma row_ids_differ:
  "row1 \<noteq> row2" "row2 \<noteq> row1" "pharmacy \<noteq> clinic" "clinic \<noteq> pharmacy"
  by (simp_all add: row1_def row2_def pharmacy_def clinic_def)

lemma read_payload_Some:
  "read_payload p = Some q \<longleftrightarrow>
   (\<exists>u v. uuid_in (p_user_id p) = Some u \<and> uuid_in (p_provider_id p) = Some v \<and>
          q = p\<lparr>p_user_id := u, p_provider_id := v\<rparr>)"
  by (auto simp: read_payload_def split: option.splits)

lemma read_filters_one:
  "read_filters [(c, v)] = map_option (\<lambda>w. [(c, w)]) (uuid_in v)"
  by (simp split: option.splits)

lemma same_pair_iff: "same_pair a b \<longleftrightarrow> pair_of a = pair_of b"
  by (auto simp: same_pair_def pair_of_def)

lemma find_id_None: "find (\<lambda>r. id_c r = g) t = None \<longleftrightarrow> g \<notin> id_c ` set t"
  by (auto simp: find_None_iff)

lemma db_insert_Inr:
  "db_insert pr now gen p t = Inr t1 \<Longrightarrow>
   \<exists>q. read_payload p = Some q \<and> t1 = t @ [new_row now gen q] \<and> gen \<notin> id_c ` set t \<and>
       pair_of (new_row now gen q) \<notin> pair_of ` set t \<and>
       policy_check FOR_INSERT pr (new_row now gen q)"
  by (auto simp: db_insert_def Let_def same_pair_iff new_row_def split: if_splits option.splits)

lemma db_insert_new:
  assumes "read_payload p = Some q" "gen \<notin> id_c ` set t"
    "\<forall>r \<in> set t. \<not> (user_id r = p_user_id q \<and> provider_id r = p_provider_id q)"
  shows "db_insert (Authenticated (p_user_id q)) now gen p t = Inr (t @ [new_row now gen q])"
  using assms
  by (auto simp: db_insert_def Let_def policy_check_authenticated new_row_def same_pair_def)

lemma db_insert_existing_pair:
  assumes "read_payload p = Some q"
    "\<exists>r \<in> set t. user_id r = p_user_id q \<and> provider_id r = p_provider_id q"
  shows "isl (db_insert pr now gen p t)"
    and "gen \<notin> id_c ` set t \<Longrightarrow>
         db_insert (Authenticated (p_user_id q)) now gen p t =
           Inl (unique_violation idx_user_provider)"
  using assms
  by (auto simp: db_insert_def Let_def policy_check_authenticated new_row_def same_pair_def)

lemma db_upsert_new:
  assumes "read_payload p = Some q" "gen \<notin> id_c ` set t"
    "\<forall>r \<in> set t. \<not> (user_id r = p_user_id q \<and> provider_id r = p_provider_id q)"
  shows "db_upsert (Authenticated (p_user_id q)) now gen p t = Inr (t @ [new_row now gen q])"
proof -
  from assms(2) have "find (\<lambda>r. id_c r = gen) t = None" by (simp add: find_id_None)
  with assms(1,3) show ?thesis
    by (auto simp: db_upsert_def Let_def policy_check_authenticated new_row_def same_pair_def)
qed

lemma db_upsert_existing_pair:
  assumes "read_payload p = Some q" "gen \<notin> id_c ` set t"
    "\<exists>r \<in> set t. user_id r = p_user_id q \<and> provider_id r = p_provider_id q"
  shows "db_upsert (Authenticated (p_user_id q)) now gen p t =
           Inl (unique_violation idx_user_provider)"
proof -
  from assms(2) have "find (\<lambda>r. id_c r = gen) t = None" by (simp add: find_id_None)
  with assms(1,3) show ?thesis
    by (auto simp: db_upsert_def Let_def policy_check_authenticated new_row_def same_pair_def)
qed

lemma db_update_by_id:
  assumes "uuid_in i = Some v"
  shows "db_update (Authenticated u) now [(col_id, i)] patch t =
     Inr (map (\<lambda>r. if user_id r = u \<and> id_c r = v then update_row now patch r else r) t)"
proof -
  have uid: "user_id (update_row now patch r) = user_id r" for r
    by (simp add: update_row_def update_updated_at_column_def apply_patch_def)
  show ?thesis
    using assms
    by (auto simp: db_update_def Let_def matches_def policy_check_authenticated uid)
qed

lemma db_select_by_owner:
  "uuid_in u = Some v \<Longrightarrow>
   db_select (Authenticated v) [(col_user_id, u)] t = Inr (filter (\<lambda>r. user_id r = v) t)"
  by (auto simp: db_select_def matches_def policy_check_authenticated intro: filter_cong)

lemma id_update_row [simp]: "id_c (update_row now u r) = id_c r"
  by (simp add: update_row_def update_updated_at_column_def apply_patch_def)

lemma pair_update_row [simp]: "pair_of (update_row now u r) = pair_of r"
  by (simp add: update_row_def update_updated_at_column_def apply_patch_def pair_of_def)

lemma insert_keeps:
  "db_insert pr now gen p t = Inr t1 \<Longrightarrow> unique_ids t \<Longrightarrow> unique_pairs t \<Longrightarrow>
   unique_ids t1 \<and> unique_pairs t1"
  by (drule db_insert_Inr) (auto simp: unique_ids_def unique_pairs_def new_row_def)

lemma update_keeps:
  "db_update pr now fs u t = Inr t1 \<Longrightarrow>
   map id_c t1 = map id_c t \<and> map pair_of t1 = map pair_of t"
  by (auto simp: db_update_def Let_def split: if_splits option.splits)

lemma delete_keeps:
  "db_delete pr fs t = Inr t1 \<Longrightarrow> unique_ids t \<Longrightarrow> unique_pairs t \<Longrightarrow>
   unique_ids t1 \<and> unique_pairs t1"
  by (auto simp: db_delete_def unique_ids_def unique_pairs_def distinct_map_filter
        split: if_splits option.splits)

lemma replace_absent:
  "\<forall>r \<in> set t. id_c r \<noteq> i \<Longrightarrow> map (\<lambda>r. if id_c r = i then upd else r) t = t"
  by (induction t) simp_all

lemma replace_pairs:
  "distinct (map id_c t) \<Longrightarrow> distinct (map pair_of t) \<Longrightarrow>
   \<forall>r \<in> set t. id_c r \<noteq> i \<longrightarrow> pair_of r \<noteq> pair_of upd \<Longrightarrow>
   distinct (map pair_of (map (\<lambda>r. if id_c r = i then upd else r) t))"
proof (induction t)
  case Nil
  then show ?case by simp
next
  case (Cons a t)
  have ids: "id_c a \<notin> id_c ` set t" and dt: "distinct (map id_c t)"
    and pairs: "pair_of a \<notin> pair_of ` set t" and pt: "distinct (map pair_of t)"
    using Cons.prems(1,2) by simp_all
  have others: "\<forall>r \<in> set t. id_c r \<noteq> i \<longrightarrow> pair_of r \<noteq> pair_of upd"
    using Cons.prems(3) by simp
  show ?case
  proof (cases "id_c a = i")
    case True
    with ids have absent: "\<forall>r \<in> set t. id_c r \<noteq> i" by blast
    with others have "pair_of upd \<notin> pair_of ` set t" by force
    with pt True show ?thesis by (simp add: replace_absent [OF absent])
  next
    case False
    let ?f = "\<lambda>r. if id_c r = i then upd else r"
    from False Cons.prems(3) have "pair_of a \<noteq> pair_of upd" by simp
    with pairs have notin: "pair_of a \<notin> set (map pair_of (map ?f t))"
      by (auto split: if_splits)
    have rest: "distinct (map pair_of (map ?f t))"
      using Cons.IH [OF dt pt others] .
    show ?thesis
      using notin rest False by simp
  qed
qed

lemma upsert_keeps:
  assumes "db_upsert pr now gen p t = Inr t1" "unique_ids t" "unique_pairs t"
  shows "unique_ids t1 \<and> unique_pairs t1"
proof -
  from assms(1) obtain q where q: "read_payload p = Some q"
    by (auto simp: db_upsert_def split: option.splits)
  show ?thesis
  proof (cases "find (\<lambda>r. id_c r = gen) t")
    case None
    with assms(1) q have t1: "t1 = t @ [new_row now gen q]"
      and free: "pair_of (new_row now gen q) \<notin> pair_of ` set t"
      by (auto simp: db_upsert_def Let_def new_row_def same_pair_iff split: if_splits)
    from None have "gen \<notin> id_c ` set t" by (simp add: find_id_None)
    with assms(2,3) free show ?thesis
      by (simp add: t1 unique_ids_def unique_pairs_def new_row_def)
  next
    case (Some old)
    let ?upd = "update_updated_at_column now (set_columns q old)"
    have idu: "id_c ?upd = id_c old"
      by (simp add: update_updated_at_column_def set_columns_def)
    from assms(1) q Some have t1: "t1 = map (\<lambda>r. if id_c r = id_c old then ?upd else r) t"
      and free: "\<forall>r \<in> set t. id_c r \<noteq> id_c old \<longrightarrow> pair_of r \<noteq> pair_of ?upd"
      by (auto simp: db_upsert_def Let_def new_row_def same_pair_iff split: if_splits)
    have "map id_c t1 = map id_c t"
      unfolding t1 by (auto simp: idu)
    moreover have "distinct (map pair_of t1)"
      unfolding t1 using assms(2,3) free
      by (intro replace_pairs) (auto simp: unique_ids_def unique_pairs_def)
    ultimately show ?thesis using assms(2) by (simp add: unique_ids_def unique_pairs_def)
  qed
qed

lemma exec_keeps:
  "exec c t = Inr t1 \<Longrightarrow> unique_ids t \<and> unique_pairs t \<Longrightarrow> unique_ids t1 \<and> unique_pairs t1"
  unfolding exec_def
  by (cases "c_request c")
     (auto dest: insert_keeps upsert_keeps delete_keeps update_keeps simp: unique_ids_def unique_pairs_def)

lemma run_calls_keeps:
  "unique_ids t \<and> unique_pairs t \<Longrightarrow>
   unique_ids (run_calls cs t) \<and> unique_pairs (run_calls cs t)"
proof (induction cs arbitrary: t)
  case Nil
  then show ?case by simp
next
  case (Cons c cs)
  show ?case
  proof (cases "exec c t")
    case (Inl err)
    with Cons show ?thesis by simp
  next
    case (Inr t1)
    with Cons.prems have "unique_ids t1 \<and> unique_pairs t1" by (blast dest: exec_keeps)
    with Cons.IH Inr show ?thesis by simp
  qed
qed

lemma reachable_unique: "unique_ids (run_calls cs []) \<and> unique_pairs (run_calls cs [])"
  by (rule run_calls_keeps) (simp add: unique_ids_def unique_pairs_def)

lemma updated_at_update_row: "updated_at (update_row now u r) = now"
  by (simp add: update_row_def update_updated_at_column_def)

lemma owner_update_sets_time:
  assumes "uuid_in (id_c r) = Some (id_c r)" "r \<in> set t"
  shows "\<exists>t1. db_update (Authenticated (user_id r)) now [(col_id, id_c r)] u t = Inr t1 \<and>
              update_row now u r \<in> set t1"
  using assms(2)
  by (auto simp: db_update_by_id [where i = "id_c r" and v = "id_c r", OF assms(1)])

lemma exec_rows:
  assumes "exec c t = Inr t1" "r1 \<in> set t1"
  shows "r1 \<in> set t \<or> updated_at r1 = c_now c"
proof (cases "c_request c")
  case (Insert p)
  with assms show ?thesis
    by (auto simp: exec_def new_row_def dest!: db_insert_Inr)
next
  case (Upsert p)
  with assms show ?thesis
    by (auto simp: exec_def db_upsert_def Let_def new_row_def update_updated_at_column_def
          split: if_splits option.splits)
next
  case (Update fs u)
  with assms show ?thesis
    by (auto simp: exec_def db_update_def Let_def updated_at_update_row
          split: if_splits option.splits)
next
  case (Delete fs)
  with assms show ?thesis
    by (auto simp: exec_def db_delete_def split: if_splits option.splits)
qed

lemma lookup_Some: "lookup i t = Some r \<Longrightarrow> r \<in> set t \<and> id_c r = i"
  by (auto simp: lookup_def find_Some_iff)

lemma lookup_unique: "unique_ids t \<Longrightarrow> r \<in> set t \<Longrightarrow> lookup (id_c r) t = Some r"
  unfolding unique_ids_def lookup_def
  by (induction t) auto

lemma run_calls_rows:
  "\<forall>x \<in> set t. updated_at x \<le> T \<Longrightarrow> chronological T cs \<Longrightarrow>
   r1 \<in> set (run_calls cs t) \<Longrightarrow> r1 \<in> set t \<or> T \<le> updated_at r1"
proof (induction cs arbitrary: t T)
  case Nil
  then show ?case by simp
next
  case (Cons c cs)
  from Cons.prems(2) have le: "T \<le> c_now c" and rest: "chronological (c_now c) cs"
    by simp_all
  show ?case
  proof (cases "exec c t")
    case (Inl err)
    from Cons.prems(1) le have "\<forall>x \<in> set t. updated_at x \<le> c_now c" by fastforce
    from Cons.IH [OF this rest] Cons.prems(3) Inl le show ?thesis by fastforce
  next
    case (Inr t1)
    have new: "x \<in> set t \<or> updated_at x = c_now c" if "x \<in> set t1" for x
      using exec_rows [OF Inr that] .
    with Cons.prems(1) le have "\<forall>x \<in> set t1. updated_at x \<le> c_now c" by fastforce
    from Cons.IH [OF this rest] Cons.prems(3) Inr
    have "r1 \<in> set t1 \<or> c_now c \<le> updated_at r1" by simp
    with new le show ?thesis by fastforce
  qed
qed

lemma exec_record:
  assumes "exec c t = Inr t1" "unique_ids t" "lookup i t = Some r" "lookup i t1 = Some r1"
  shows "r1 = r \<or> updated_at r1 = c_now c"
proof -
  from assms(4) have in1: "r1 \<in> set t1" and id1: "id_c r1 = i" by (simp_all add: lookup_Some)
  from exec_rows [OF assms(1) in1] show ?thesis
  proof
    assume "r1 \<in> set t"
    from lookup_unique [OF assms(2) this] id1 assms(3) show ?thesis by simp
  next
    assume "updated_at r1 = c_now c"
    then show ?thesis ..
  qed
qed

lemma run_calls_record:
  assumes "unique_ids t" "\<forall>x \<in> set t. updated_at x \<le> T" "chronological T cs"
    "lookup i t = Some r" "lookup i (run_calls cs t) = Some r1"
  shows "updated_at r \<le> updated_at r1"
proof -
  from assms(5) have in1: "r1 \<in> set (run_calls cs t)" and id1: "id_c r1 = i"
    by (simp_all add: lookup_Some)
  from assms(4) have inr: "r \<in> set t" by (simp add: lookup_Some)
  from run_calls_rows [OF assms(2,3) in1] show ?thesis
  proof
    assume "r1 \<in> set t"
    from lookup_unique [OF assms(1) this] id1 assms(4) show ?thesis by simp
  next
    assume "T \<le> updated_at r1"
    with assms(2) inr show ?thesis by fastforce
  qed
qed

text \<open>
  Claim C5. An UPDATE sets \<open>updated_at\<close> to the time of the update whatever columns the
  patch names, and the owner's update of a record by its id goes through and leaves the
  record with that time. A request run at time \<open>now\<close>, be it an insert, an update of
  flags or of the approval, an upsert or a delete, leaves the record with a given id as
  it was or leaves it with \<open>updated_at = now\<close>. Along a run of requests whose times do not
  go back, from a table whose timestamps are not in the future, the \<open>updated_at\<close> of a
  record never decreases.
\<close>

theorem C5_updated_at:
  "updated_at (update_row now u r0) = now \<and>
   (uuid_in (id_c r0) = Some (id_c r0) \<longrightarrow> r0 \<in> set t \<longrightarrow>
      (\<exists>t2. db_update (Authenticated (user_id r0)) now [(col_id, id_c r0)] u t = Inr t2 \<and>
            update_row now u r0 \<in> set t2)) \<and>
   (exec c t = Inr t1 \<longrightarrow> unique_ids t \<longrightarrow> lookup i t = Some r \<longrightarrow>
      lookup i t1 = Some r1 \<longrightarrow> r1 = r \<or> updated_at r1 = c_now c) \<and>
   (unique_ids t \<longrightarrow> (\<forall>x \<in> set t. updated_at x \<le> T) \<longrightarrow> chronological T cs \<longrightarrow>
      lookup i t = Some r \<longrightarrow> lookup i (run_calls cs t) = Some r1 \<longrightarrow>
      updated_at r \<le> updated_at r1)"
  using updated_at_update_row [of now u r0] owner_update_sets_time [of r0 t now u]
    exec_record [of c t t1 i r r1] run_calls_record [of t T cs i r r1]
  by blast

lemma example_run:
  "run_calls example_calls [example_row row1 alice clinic False] =
   [(example_row row1 alice clinic True)\<lparr>lab_results := True, updated_at := 8\<rparr>]"
  by (simp add: example_calls_def exec_def db_update_def Let_def matches_def
        uuid_examples policy_check_authenticated update_row_def update_updated_at_column_def
        apply_patch_def or_default_def example_row_def approve_patch_def flags_patch_def)

theorem C5_updated_at_witness:
  "uuid_in (id_c (example_row row1 alice clinic False)) = Some (id_c (example_row row1 alice clinic False)) \<and>
   unique_ids [example_row row1 alice clinic False] \<and>
   updated_at (example_row row1 alice clinic False) \<le> 1 \<and>
   chronological 1 example_calls \<and>
   lookup row1 [example_row row1 alice clinic False] = Some (example_row row1 alice clinic False) \<and>
   exec (hd example_calls) [example_row row1 alice clinic False] =
     Inr [(example_row row1 alice clinic True)\<lparr>updated_at := 5\<rparr>] \<and>
   updated_at ((example_row row1 alice clinic True)\<lparr>updated_at := 5\<rparr>) = c_now (hd example_calls) \<and>
   lookup row1 (run_calls example_calls [example_row row1 alice clinic False]) =
     Some ((example_row row1 alice clinic True)\<lparr>lab_results := True, updated_at := 8\<rparr>) \<and>
   updated_at (example_row row1 alice clinic False) \<le>
     updated_at ((example_row row1 alice clinic True)\<lparr>lab_results := True, updated_at := 8\<rparr>)"
  using C5_updated_at [of 5 approve_patch "example_row row1 alice clinic False"
          "[example_row row1 alice clinic False]" "hd example_calls"
          "[(example_row row1 alice clinic True)\<lparr>updated_at := 5\<rparr>]" row1
          "example_row row1 alice clinic False"
          "(example_row row1 alice clinic True)\<lparr>updated_at := 5\<rparr>" 1 example_calls]
        C5_updated_at [of 5 approve_patch "example_row row1 alice clinic False"
          "[example_row row1 alice clinic False]" "hd example_calls"
          "[(example_row row1 alice clinic True)\<lparr>updated_at := 5\<rparr>]" row1
          "example_row row1 alice clinic False"
          "(example_row row1 alice clinic True)\<lparr>lab_results := True, updated_at := 8\<rparr>"
          1 example_calls]
        example_run
  by (simp add: unique_ids_def lookup_def example_row_def example_calls_def exec_def
        db_update_def Let_def matches_def uuid_examples policy_check_authenticated
        update_row_def update_updated_at_column_def apply_patch_def or_default_def
        approve_patch_def)

section \<open>Facts about the handlers\<close>

lemma alice_env_simps:
  "userData alice_env = Some alice" "link alice_env = Delivered" "db_now alice_env = 5"
  "db_uuid alice_env = row2" "random_id alice_env = ''k3x9q2m1z''"
  "principal_of alice_env = Authenticated alice"
  by (simp_all add: alice_env_def principal_of_def uuid_examples)

lemma log_only_send:
  "snd (log_only m1 m2 (send e kind run s)) = Resolved \<and>
   page (fst (log_only m1 m2 (send e kind run s))) = page s \<and>
   requests (fst (log_only m1 m2 (send e kind run s))) = requests s @ [kind]"
  by (simp add: log_only_def send_def page_def console_error_def Let_def
        split: link.splits sum.splits)

lemma log_only_send_failed:
  "link e \<noteq> Delivered \<or> isl (run (database s)) \<Longrightarrow>
   database (fst (log_only m1 m2 (send e kind run s))) = database s \<and>
   (console (fst (log_only m1 m2 (send e kind run s))) = console s @ [m1] \<or>
    console (fst (log_only m1 m2 (send e kind run s))) = console s @ [m2])"
  by (auto simp: log_only_def send_def console_error_def Let_def isl_def
        split: link.splits sum.splits)

lemma log_only_send_done:
  "link e = Delivered \<Longrightarrow> run (database s) = Inr t \<Longrightarrow>
   log_only m1 m2 (send e kind run s) = (s\<lparr>requests := requests s @ [kind], database := t\<rparr>, Resolved)"
  by (simp add: log_only_def send_def Let_def)

lemma log_only_send_refused:
  "link e = Delivered \<Longrightarrow> isl (run (database s)) \<Longrightarrow>
   log_only m1 m2 (send e kind run s) =
     (s\<lparr>requests := requests s @ [kind], console := console s @ [m1]\<rparr>, Resolved)"
  by (auto simp: log_only_def send_def Let_def console_error_def isl_def)

lemma isl_unchanged:
  "isl (run (database s)) \<Longrightarrow> database (fst (log_only m1 m2 (send e kind run s))) = database s"
  using log_only_send_failed [of e run s m1 m2 kind] by simp

lemma act_resolves: "local_mutation a \<Longrightarrow> snd (act e a s) = Resolved"
  by (cases a)
     (simp_all add: handleAddProvider_def handleUpdatePermissions_def handleDeleteProvider_def
        handleAccessRequest_def deny_onClick_def approve_onClick_def log_only_send Let_def
        split: option.splits)

lemma page_simps:
  "page (s\<lparr>providersList := ps\<rparr>) = (ps, isAccessModalOpen s, userConsents s)"
  "page (s\<lparr>providersList := ps, isAccessModalOpen := b\<rparr>) = (ps, b, userConsents s)"
  "page (console_error m s) = page s"
  by (simp_all add: page_def console_error_def)

lemma act_page:
  assumes "local_mutation a" "userData e' = userData e" "random_id e' = random_id e"
    "date_iso e' = date_iso e" "page s' = page s"
  shows "page (fst (act e a s)) = page (fst (act e' a s'))"
proof -
  from assms(5) have same: "providersList s' = providersList s"
    "isAccessModalOpen s' = isAccessModalOpen s" "userConsents s' = userConsents s"
    by (simp_all add: page_def)
  then have rr: "rendered_requests s' = rendered_requests s"
    by (simp add: rendered_requests_def)
  show ?thesis
    using assms(1-4)
    by (cases a)
       (simp_all add: handleAddProvider_def handleUpdatePermissions_def handleDeleteProvider_def
          handleAccessRequest_def deny_onClick_def approve_onClick_def log_only_send Let_def
          page_simps same rr assms(5) split: option.splits)
qed

lemma act_not_delivered:
  assumes "local_mutation a" "link e \<noteq> Delivered"
  shows "database (fst (act e a s)) = database s \<and>
         (requests (fst (act e a s)) \<noteq> requests s \<longrightarrow>
            length (console (fst (act e a s))) = Suc (length (console s)))"
proof -
  have tail: "database (fst (log_only m1 m2 (send e kind run s0))) = database s0 \<and>
              length (console (fst (log_only m1 m2 (send e kind run s0)))) = Suc (length (console s0))"
    for m1 m2 kind run s0
    using assms(2)
    by (cases "link e") (simp_all add: log_only_def send_def console_error_def Let_def)
  show ?thesis
    using assms(1)
    by (cases a)
       (simp_all add: handleAddProvider_def handleUpdatePermissions_def handleDeleteProvider_def
          handleAccessRequest_def deny_onClick_def approve_onClick_def tail Let_def
          console_error_def split: option.splits)
qed

lemma act_failed:
  assumes "local_mutation a" "request_of e a s = Some run"
    "link e \<noteq> Delivered \<or> isl (run (database s))"
  shows "database (fst (act e a s)) = database s \<and>
         (\<exists>msg. console (fst (act e a s)) = console s @ [msg])"
proof -
  have tail: "database (fst (log_only m1 m2 (send e kind run s0))) = database s \<and>
              (\<exists>msg. console (fst (log_only m1 m2 (send e kind run s0))) = console s @ [msg])"
    if "database s0 = database s" "console s0 = console s" for m1 m2 kind s0
    using assms(3) that log_only_send_failed [where e = e and run = run and s = s0
        and ?m1.0 = m1 and ?m2.0 = m2 and kind = kind]
    by auto
  show ?thesis
  proof (cases a)
    case (AddProvider np)
    with assms(2) obtain uid where "userData e = Some uid" "add_provider_request e uid = run"
      by auto
    with AddProvider show ?thesis
      by (simp add: handleAddProvider_def Let_def tail)
  next
    case (UpdatePermissions providerId perms)
    with assms(2) obtain uid where "userData e = Some uid"
      "permissions_request e uid providerId perms = run"
      by auto
    with UpdatePermissions show ?thesis
      by (simp add: handleUpdatePermissions_def Let_def tail)
  next
    case (DeleteProvider providerId)
    with assms(2) obtain uid where "userData e = Some uid"
      "delete_provider_request e uid providerId = run"
      by auto
    with DeleteProvider show ?thesis
      by (simp add: handleDeleteProvider_def Let_def tail)
  next
    case Fetch
    with assms(1) show ?thesis by simp
  next
    case (Change ev)
    with assms(1) show ?thesis by simp
  next
    case (AccessRequest data)
    with assms(2) obtain uid where "userData e = Some uid" "access_request e uid data = run"
      by auto
    with AccessRequest show ?thesis
      by (simp add: handleAccessRequest_def tail)
  next
    case (Deny k)
    with assms(2) have "k < length (rendered_requests s)"
      "deny_request e (rendered_requests s ! k) = run"
      by (auto split: if_splits)
    with Deny show ?thesis
      by (simp add: deny_onClick_def tail)
  next
    case (Approve k)
    with assms(2) have "k < length (rendered_requests s)"
      "approve_request e (rendered_requests s ! k) = run"
      by (auto split: if_splits)
    with Approve show ?thesis
      by (simp add: approve_onClick_def tail)
  qed
qed

lemma add_provider_refused:
  "length (random_id e) < 32 \<Longrightarrow> add_provider_request e uid t = Inl invalid_text_representation"
  by (simp add: add_provider_request_def db_insert_def read_payload_def add_provider_payload_def
        uuid_in_short split: option.splits)

lemma access_request_refused: "access_request e uid data t = Inl invalid_text_representation"
  by (simp add: access_request_def db_insert_def read_payload_def access_request_payload_def
        not_uuid split: option.splits)

text \<open>
  Claim C6, as stated: a failed store operation is surfaced to the caller or the page and
  never ends in a state that looks successful. It fails: the nine characters that
  \<^verbatim>\<open>handleAddProvider\<close> generates as provider id are refused by the uuid column, the
  promise resolves all the same, the new provider stays in the list and the table is
  empty; the console line is all there is.
\<close>

theorem C6_swallowed_counterexample:
  "add_provider_request alice_env alice (database (initial_state [])) =
     Inl invalid_text_representation \<and>
   snd (handleAddProvider alice_env example_provider (initial_state [])) = Resolved \<and>
   map id_p (providersList (fst (handleAddProvider alice_env example_provider (initial_state [])))) =
     [''1'', ''2'', ''3'', ''k3x9q2m1z''] \<and>
   database (fst (handleAddProvider alice_env example_provider (initial_state []))) = [] \<and>
   console (fst (handleAddProvider alice_env example_provider (initial_state []))) =
     [''Error creating consent record:'']"
proof -
  have refused: "add_provider_request alice_env alice t = Inl invalid_text_representation" for t
    by (rule add_provider_refused) (simp add: alice_env_def)
  have env: "userData alice_env = Some alice" "link alice_env = Delivered"
    "random_id alice_env = ''k3x9q2m1z''"
    by (simp_all add: alice_env_def)
  show ?thesis
    by (simp add: handleAddProvider_def Let_def env refused log_only_send_refused
          initial_state_def initialProviders_def)
qed

text \<open>
  Claim C6, amended: for every local mutation (add, update permissions, delete, access
  request, deny, approve) the handler's promise resolves, and the page it leaves does not
  depend on the table or on what became of the request. When the request the handler
  sends is not delivered, or the database refuses it, the handler leaves the table as it
  was and the console with exactly one line more, the only trace of the failure. The last
  two parts say the same of an undelivered request without naming it, and of the tail
  the handlers share.
\<close>

theorem C6_logged_only:
  "(local_mutation a \<longrightarrow> snd (act e a s) = Resolved) \<and>
   (local_mutation a \<longrightarrow> userData e' = userData e \<longrightarrow> random_id e' = random_id e \<longrightarrow>
      date_iso e' = date_iso e \<longrightarrow> page s' = page s \<longrightarrow>
      page (fst (act e a s)) = page (fst (act e' a s'))) \<and>
   (local_mutation a \<longrightarrow> request_of e a s = Some run \<longrightarrow>
      link e \<noteq> Delivered \<or> isl (run (database s)) \<longrightarrow>
      database (fst (act e a s)) = database s \<and>
      (\<exists>msg. console (fst (act e a s)) = console s @ [msg])) \<and>
   (local_mutation a \<longrightarrow> link e \<noteq> Delivered \<longrightarrow>
      database (fst (act e a s)) = database s \<and>
      (requests (fst (act e a s)) \<noteq> requests s \<longrightarrow>
         length (console (fst (act e a s))) = Suc (length (console s)))) \<and>
   (link e \<noteq> Delivered \<or> isl (run (database s)) \<longrightarrow>
      snd (log_only m1 m2 (send e kind run s)) = Resolved \<and>
      page (fst (log_only m1 m2 (send e kind run s))) = page s \<and>
      database (fst (log_only m1 m2 (send e kind run s))) = database s \<and>
      (console (fst (log_only m1 m2 (send e kind run s))) = console s @ [m1] \<or>
       console (fst (log_only m1 m2 (send e kind run s))) = console s @ [m2]))"
  using act_resolves [of a e s] act_page [of a e' e s' s] log_only_send [of m1 m2 e kind run s]
    log_only_send_failed [of e run s m1 m2 kind] act_not_delivered [of a e s]
    act_failed [of a e s run]
  by blast

theorem C6_logged_only_witness:
  "local_mutation (AddProvider example_provider) \<and>
   request_of alice_env (AddProvider example_provider) (initial_state []) =
     Some (add_provider_request alice_env alice) \<and>
   isl (add_provider_request alice_env alice (database (initial_state []))) \<and>
   snd (act alice_env (AddProvider example_provider) (initial_state [])) = Resolved \<and>
   database (fst (act alice_env (AddProvider example_provider) (initial_state []))) = [] \<and>
   console (fst (act alice_env (AddProvider example_provider) (initial_state []))) =
     [''Error creating consent record:''] \<and>
   userData offline_env = userData alice_env \<and> random_id offline_env = random_id alice_env \<and>
   date_iso offline_env = date_iso alice_env \<and>
   page (initial_state [example_row row1 alice clinic False]) = page (initial_state []) \<and>
   page (fst (act alice_env (AddProvider example_provider) (initial_state []))) =
     page (fst (act offline_env (AddProvider example_provider)
                  (initial_state [example_row row1 alice clinic False]))) \<and>
   link offline_env \<noteq> Delivered \<and>
   database (fst (act offline_env (AddProvider example_provider)
                    (initial_state [example_row row1 alice clinic False]))) =
     [example_row row1 alice clinic False] \<and>
   requests (fst (act offline_env (AddProvider example_provider)
                    (initial_state [example_row row1 alice clinic False]))) \<noteq> [] \<and>
   length (console (fst (act offline_env (AddProvider example_provider)
                           (initial_state [example_row row1 alice clinic False])))) = 1"
proof -
  have refused: "add_provider_request alice_env alice t = Inl invalid_text_representation" for t
    by (rule add_provider_refused) (simp add: alice_env_def)
  have off: "userData offline_env = Some alice" "link offline_env = Unreachable"
    "random_id offline_env = random_id alice_env" "date_iso offline_env = date_iso alice_env"
    by (simp_all add: offline_env_def alice_env_def)
  have init: "database (initial_state t) = t" "console (initial_state t) = []"
    "requests (initial_state t) = []" "page (initial_state t) = (initialProviders, False, [])" for t
    by (simp_all add: initial_state_def page_def)
  have console: "console (fst (act alice_env (AddProvider example_provider) (initial_state []))) =
      [''Error creating consent record:'']"
    by (simp add: handleAddProvider_def Let_def alice_env_simps refused log_only_send_refused init)
  have sent: "requests (fst (act offline_env (AddProvider example_provider)
                    (initial_state [example_row row1 alice clinic False]))) \<noteq> []"
    by (simp add: handleAddProvider_def Let_def off log_only_send init)
  show ?thesis
    using C6_logged_only [of "AddProvider example_provider" alice_env "initial_state []"
            offline_env "initial_state [example_row row1 alice clinic False]"
            "add_provider_request alice_env alice"]
          C6_logged_only [of "AddProvider example_provider" offline_env
            "initial_state [example_row row1 alice clinic False]" alice_env "initial_state []"
            "add_provider_request offline_env alice"]
          console sent
    by (simp add: alice_env_simps off refused init)
qed

lemma act_guest:
  assumes "userData e = None" "userConsents s = []"
  shows "snd (act e a s) = Resolved \<and> requests (fst (act e a s)) = requests s \<and>
         database (fst (act e a s)) = database s \<and> userConsents (fst (act e a s)) = []"
  using assms
  by (cases a)
     (simp_all add: handleAddProvider_def handleUpdatePermissions_def handleDeleteProvider_def
        handleAccessRequest_def fetchConsentRecords_def deliver_def rendered_requests_def
        console_error_def Let_def)

lemma run_guest:
  "\<forall>ea \<in> set run. userData (fst ea) = None \<Longrightarrow> userConsents s = [] \<Longrightarrow>
   requests (fst (run_actions run s)) = requests s \<and>
   database (fst (run_actions run s)) = database s \<and>
   userConsents (fst (run_actions run s)) = [] \<and>
   (\<forall>r \<in> set (snd (run_actions run s)). r = Resolved)"
proof (induction run arbitrary: s)
  case Nil
  then show ?case by simp
next
  case (Cons ea run)
  obtain e a where ea: "ea = (e, a)" by (cases ea)
  with Cons.prems have g: "userData e = None" by simp
  note step = act_guest [OF g Cons.prems(2), of a]
  obtain s1 r where a1: "act e a s = (s1, r)" by (cases "act e a s")
  with step have s1: "r = Resolved" "requests s1 = requests s" "database s1 = database s"
    "userConsents s1 = []" by simp_all
  from Cons.prems(1) have "\<forall>ea \<in> set run. userData (fst ea) = None" by simp
  from Cons.IH [OF this s1(4)] s1 show ?case
    by (cases "run_actions run s1") (simp add: ea a1)
qed

text \<open>
  Claim C8. Without a logged-in user, whatever the pages are made to do from their first
  rendering, no request is sent, the table stays as it is, the mirror of consents stays
  empty, and every handler's promise resolves.
\<close>

theorem C8_no_identity:
  "(\<forall>ea \<in> set run. userData (fst ea) = None) \<longrightarrow>
   requests (fst (run_actions run (initial_state t))) = [] \<and>
   database (fst (run_actions run (initial_state t))) = t \<and>
   userConsents (fst (run_actions run (initial_state t))) = [] \<and>
   (\<forall>r \<in> set (snd (run_actions run (initial_state t))). r = Resolved)"
proof
  assume g: "\<forall>ea \<in> set run. userData (fst ea) = None"
  have "userConsents (initial_state t) = []" by (simp add: initial_state_def)
  from run_guest [OF g this] show
    "requests (fst (run_actions run (initial_state t))) = [] \<and>
     database (fst (run_actions run (initial_state t))) = t \<and>
     userConsents (fst (run_actions run (initial_state t))) = [] \<and>
     (\<forall>r \<in> set (snd (run_actions run (initial_state t))). r = Resolved)"
    by (simp add: initial_state_def)
qed

theorem C8_no_identity_witness:
  "userData guest_env = None \<and>
   requests (fst (run_actions guest_run (initial_state [example_row row1 alice clinic False]))) = [] \<and>
   database (fst (run_actions guest_run (initial_state [example_row row1 alice clinic False]))) =
     [example_row row1 alice clinic False] \<and>
   userConsents (fst (run_actions guest_run (initial_state [example_row row1 alice clinic False]))) = [] \<and>
   snd (run_actions guest_run (initial_state [example_row row1 alice clinic False])) =
     [Resolved, Resolved, Resolved] \<and>
   console (fst (run_actions guest_run (initial_state [example_row row1 alice clinic False]))) =
     [''User not authenticated'']"
  using C8_no_identity [of guest_run "[example_row row1 alice clinic False]"]
  by (simp add: guest_run_def guest_env_def alice_env_def initial_state_def
        handleAddProvider_def handleAccessRequest_def rendered_requests_def
        console_error_def Let_def)

text \<open>
  Claim C2 says that an upsert on an existing pair merges instead of failing. Run on a
  table that holds a record of the pair, the upsert of \<^verbatim>\<open>handleUpdatePermissions\<close> is
  refused by the unique index; the record keeps its flags and the handler writes the
  error to the console. Another spelling of the provider's uuid is refused all the same.
  (What the claim says of the table's states and of a second insert holds:
  \<open>reachable_unique\<close> and \<open>db_insert_existing_pair\<close>.)
\<close>

theorem C2_upsert_existing_pair:
  "db_upsert (Authenticated alice) 5 row2
     (permissions_payload alice clinic [(''labResults'', True)])
     [example_row row1 alice clinic False] = Inl (unique_violation idx_user_provider) \<and>
   database (fst (handleUpdatePermissions alice_env clinic [(''labResults'', True)]
                    (initial_state [example_row row1 alice clinic False]))) =
     [example_row row1 alice clinic False] \<and>
   console (fst (handleUpdatePermissions alice_env clinic [(''labResults'', True)]
                   (initial_state [example_row row1 alice clinic False]))) =
     [''Error updating provider permissions:''] \<and>
   database (fst (handleUpdatePermissions alice_env ''C0FFEE00-0000-4000-8000-000000000002''
                    [(''labResults'', True)] (initial_state [example_row row1 alice clinic False]))) =
     [example_row row1 alice clinic False]"
proof -
  have refused: "db_upsert (Authenticated alice) 5 row2 (permissions_payload alice p perms)
      [example_row row1 alice clinic False] = Inl (unique_violation idx_user_provider)"
    if "uuid_in p = Some clinic" for p perms
  proof -
    have "read_payload (permissions_payload alice p perms) =
        Some ((permissions_payload alice p perms)\<lparr>p_user_id := alice, p_provider_id := clinic\<rparr>)"
      using that by (simp add: read_payload_def permissions_payload_def uuid_examples)
    from db_upsert_existing_pair [OF this, of row2 "[example_row row1 alice clinic False]" 5]
    show ?thesis
      by (simp add: example_row_def row_ids_differ)
  qed
  have init: "database (initial_state t) = t" "console (initial_state t) = []" for t
    by (simp_all add: initial_state_def)
  show ?thesis
    by (simp add: handleUpdatePermissions_def Let_def alice_env_simps permissions_request_def
          refused uuid_examples log_only_send_refused init)
qed

text \<open>
  Claim C7, as stated: an upsert with only \<^verbatim>\<open>labResults: true\<close> for a pair without a record
  creates a record that is not approved. It fails: the one upsert of the repository, in
  \<^verbatim>\<open>handleUpdatePermissions\<close>, always sends \<^verbatim>\<open>approved: true\<close>, and on the empty table
  the record it creates is approved.
\<close>

theorem C7_approved_counterexample:
  "database (fst (handleUpdatePermissions alice_env clinic [(''labResults'', True)] (initial_state []))) =
     [\<lparr>id_c = row2, user_id = alice, provider_id = clinic, lab_results = True,
       medications = False, fitness_data = False, approved = True, created_at = 5,
       updated_at = 5\<rparr>]"
proof -
  let ?p = "permissions_payload alice clinic [(''labResults'', True)]"
  have "read_payload ?p = Some (?p\<lparr>p_user_id := alice, p_provider_id := clinic\<rparr>)"
    by (simp add: read_payload_def permissions_payload_def uuid_examples)
  from db_upsert_new [OF this, of row2 "[]" 5]
  have "permissions_request alice_env alice clinic [(''labResults'', True)] [] =
          Inr [new_row 5 row2 (?p\<lparr>p_user_id := alice, p_provider_id := clinic\<rparr>)]"
    by (simp add: permissions_request_def alice_env_simps)
  then show ?thesis
    using log_only_send_done [where e = alice_env
        and run = "permissions_request alice_env alice clinic [(''labResults'', True)]"]
    by (simp add: handleUpdatePermissions_def Let_def alice_env_simps initial_state_def
          new_row_def permissions_payload_def or_default_def)
qed

text \<open>
  Claim C7, amended: let a user be logged in, let the provider id be the text of a uuid,
  and let the table hold no record of that user's uuid and that provider's uuid. Then the
  upsert of \<^verbatim>\<open>handleUpdatePermissions\<close> with only \<^verbatim>\<open>labResults: true\<close>, when it is delivered
  and the generated id is not in use, adds one record to the table: of that user and
  provider, with \<^verbatim>\<open>lab_results\<close> true, \<^verbatim>\<open>medications\<close> and \<^verbatim>\<open>fitness_data\<close> false and
  \<^verbatim>\<open>approved\<close> true.
\<close>

theorem C7_upsert_creates:
  "userData e = Some u \<longrightarrow> link e = Delivered \<longrightarrow> uuid_in u = Some v \<longrightarrow> uuid_in p = Some w \<longrightarrow>
   db_uuid e \<notin> id_c ` set (database s) \<longrightarrow>
   (\<forall>r \<in> set (database s). \<not> (user_id r = v \<and> provider_id r = w)) \<longrightarrow>
   database (fst (handleUpdatePermissions e p [(''labResults'', True)] s)) =
     database s @
     [\<lparr>id_c = db_uuid e, user_id = v, provider_id = w, lab_results = True,
       medications = False, fitness_data = False, approved = True, created_at = db_now e,
       updated_at = db_now e\<rparr>]"
proof (intro impI)
  assume u: "userData e = Some u" and d: "link e = Delivered"
    and v: "uuid_in u = Some v" "uuid_in p = Some w"
    and fresh: "db_uuid e \<notin> id_c ` set (database s)"
    and absent: "\<forall>r \<in> set (database s). \<not> (user_id r = v \<and> provider_id r = w)"
  let ?p = "permissions_payload u p [(''labResults'', True)]"
  let ?q = "?p\<lparr>p_user_id := v, p_provider_id := w\<rparr>"
  let ?s1 = "s\<lparr>providersList :=
                 map (\<lambda>provider. if id_p provider = p
                        then provider\<lparr>permissions := [(''labResults'', True)]\<rparr> else provider)
                     (providersList s)\<rparr>"
  have q: "read_payload ?p = Some ?q"
    using v by (simp add: read_payload_def permissions_payload_def)
  have pr: "principal_of e = Authenticated (p_user_id ?q)"
    using u v by (simp add: principal_of_def)
  have "db_upsert (Authenticated (p_user_id ?q)) (db_now e) (db_uuid e) ?p (database ?s1) =
          Inr (database ?s1 @ [new_row (db_now e) (db_uuid e) ?q])"
    using fresh absent by (intro db_upsert_new [OF q]) simp_all
  then have run: "permissions_request e u p [(''labResults'', True)] (database ?s1) =
          Inr (database s @ [new_row (db_now e) (db_uuid e) ?q])"
    by (simp add: permissions_request_def pr)
  have "database (fst (handleUpdatePermissions e p [(''labResults'', True)] s)) =
          database s @ [new_row (db_now e) (db_uuid e) ?q]"
    using u d run
      log_only_send_done [where e = e and s = ?s1
        and run = "permissions_request e u p [(''labResults'', True)]"]
    by (simp add: handleUpdatePermissions_def Let_def)
  then show "database (fst (handleUpdatePermissions e p [(''labResults'', True)] s)) =
     database s @
     [\<lparr>id_c = db_uuid e, user_id = v, provider_id = w, lab_results = True,
       medications = False, fitness_data = False, approved = True, created_at = db_now e,
       updated_at = db_now e\<rparr>]"
    by (simp add: new_row_def permissions_payload_def or_default_def)
qed

theorem C7_upsert_creates_witness:
  "userData alice_env = Some alice \<and> link alice_env = Delivered \<and> uuid_in alice = Some alice \<and>
   uuid_in ''C0FFEE00-0000-4000-8000-000000000002'' = Some clinic \<and>
   db_uuid alice_env \<notin> id_c ` set (database (initial_state [example_row row1 alice pharmacy False])) \<and>
   \<not> (user_id (example_row row1 alice pharmacy False) = alice \<and>
      provider_id (example_row row1 alice pharmacy False) = clinic) \<and>
   database (fst (handleUpdatePermissions alice_env ''C0FFEE00-0000-4000-8000-000000000002''
                    [(''labResults'', True)]
                    (initial_state [example_row row1 alice pharmacy False]))) =
     [example_row row1 alice pharmacy False,
      \<lparr>id_c = row2, user_id = alice, provider_id = clinic, lab_results = True,
       medications = False, fitness_data = False, approved = True, created_at = 5,
       updated_at = 5\<rparr>]"
  using C7_upsert_creates [of alice_env alice alice "''C0FFEE00-0000-4000-8000-000000000002''"
          clinic "initial_state [example_row row1 alice pharmacy False]"]
  by (simp add: alice_env_simps uuid_examples initial_state_def example_row_def row_ids_differ)

text \<open>
  Claim C9. Let a record be created for the owner \<open>u1\<close> and the provider \<open>p1\<close> (the uuid
  \<open>v1\<close>), not approved, with any flags. When its owner clicks Approve and the page then
  fetches the owner's records, the list holds exactly one record of that pair: the
  created one, approved, with the update's time, and with the three flags as they were
  created.
\<close>

theorem C9_approve_then_list:
  "db_insert (Authenticated u1) now gen
     \<lparr>p_user_id = u1, p_provider_id = p1, p_lab_results = l, p_medications = m,
      p_fitness_data = f, p_approved = Some False\<rparr> t = Inr t1 \<longrightarrow>
   uuid_in p1 = Some v1 \<longrightarrow> uuid_in gen = Some gen \<longrightarrow> userData e = Some u1 \<longrightarrow>
   link e = Delivered \<longrightarrow> database s = t1 \<longrightarrow>
   (let created = new_row now gen
          \<lparr>p_user_id = u1, p_provider_id = v1, p_lab_results = l, p_medications = m,
           p_fitness_data = f, p_approved = Some False\<rparr>;
        listed = userConsents (fst (fetchConsentRecords e (fst (approve_onClick e created s))));
        found = filter (\<lambda>r. user_id r = u1 \<and> provider_id r = v1) listed
    in \<not> approved created \<and>
       found = [created\<lparr>approved := True, updated_at := db_now e\<rparr>] \<and>
       list_all approved found \<and>
       map lab_results found = [lab_results created] \<and>
       map medications found = [medications created] \<and>
       map fitness_data found = [fitness_data created])"
proof (intro impI)
  let ?p = "\<lparr>p_user_id = u1, p_provider_id = p1, p_lab_results = l, p_medications = m,
      p_fitness_data = f, p_approved = Some False\<rparr>"
  let ?q = "\<lparr>p_user_id = u1, p_provider_id = v1, p_lab_results = l, p_medications = m,
      p_fitness_data = f, p_approved = Some False\<rparr>"
  let ?c = "new_row now gen ?q"
  let ?c' = "?c\<lparr>approved := True, updated_at := db_now e\<rparr>"
  assume ins: "db_insert (Authenticated u1) now gen ?p t = Inr t1"
    and v1: "uuid_in p1 = Some v1" and g: "uuid_in gen = Some gen" and u: "userData e = Some u1"
    and d: "link e = Delivered" and s: "database s = t1"
  from db_insert_Inr [OF ins] obtain q where q: "read_payload ?p = Some q"
    and t1q: "t1 = t @ [new_row now gen q]" and fresh: "gen \<notin> id_c ` set t"
    and pairq: "pair_of (new_row now gen q) \<notin> pair_of ` set t"
    and pol: "policy_check FOR_INSERT (Authenticated u1) (new_row now gen q)"
    by blast
  from q v1 obtain u' where u': "uuid_in u1 = Some u'" and qq: "q = ?p\<lparr>p_user_id := u', p_provider_id := v1\<rparr>"
    by (auto simp: read_payload_Some)
  from pol qq have "u1 = u'"
    by (simp add: policy_check_authenticated new_row_def)
  with u' qq have uu: "uuid_in u1 = Some u1" and q_eq: "q = ?q" by simp_all
  have t1: "t1 = t @ [?c]" and pair: "pair_of ?c \<notin> pair_of ` set t"
    using t1q pairq by (simp_all add: q_eq)
  have c: "id_c ?c = gen" "user_id ?c = u1" "provider_id ?c = v1" "\<not> approved ?c"
    by (simp_all add: new_row_def or_default_def)
  have upd: "update_row (db_now e) approve_patch ?c = ?c'"
    by (simp add: update_row_def update_updated_at_column_def apply_patch_def approve_patch_def
          or_default_def)
  have keep: "map (\<lambda>r. if user_id r = u1 \<and> id_c r = gen then update_row (db_now e) approve_patch r else r) t = t"
    using fresh by (induction t) auto
  have pr: "principal_of e = Authenticated u1"
    using u uu by (simp add: principal_of_def)
  have run: "approve_request e ?c (database s) = Inr (t @ [?c'])"
    unfolding approve_request_def pr c(1) s t1 db_update_by_id [where i = gen and v = gen, OF g]
    by (simp add: keep c upd)
  let ?s2 = "s\<lparr>requests := requests s @ [''update''], database := t @ [?c']\<rparr>"
  have s2: "fst (approve_onClick e ?c s) = ?s2"
    using d run
      log_only_send_done [where e = e and s = s and run = "approve_request e ?c"]
    by (simp add: approve_onClick_def)
  have sel: "db_select (principal_of e) [(col_user_id, u1)] (database ?s2) =
               Inr (filter (\<lambda>r. user_id r = u1) t @ [?c'])"
    unfolding pr db_select_by_owner [where u = u1 and v = u1, OF uu] by (simp add: c)
  have listed: "userConsents (fst (fetchConsentRecords e (fst (approve_onClick e ?c s)))) =
                  filter (\<lambda>r. user_id r = u1) t @ [?c']"
    unfolding s2 using u d sel by (simp add: fetchConsentRecords_def fetch_def Let_def)
  have none: "filter (\<lambda>r. user_id r = u1 \<and> provider_id r = v1) (filter (\<lambda>r. user_id r = u1) t) = []"
    using pair by (auto simp: filter_empty_conv pair_of_def c image_iff)
  show "let created = ?c;
            listed = userConsents (fst (fetchConsentRecords e (fst (approve_onClick e created s))));
            found = filter (\<lambda>r. user_id r = u1 \<and> provider_id r = v1) listed
        in \<not> approved created \<and>
           found = [created\<lparr>approved := True, updated_at := db_now e\<rparr>] \<and>
           list_all approved found \<and>
           map lab_results found = [lab_results created] \<and>
           map medications found = [medications created] \<and>
           map fitness_data found = [fitness_data created]"
    unfolding Let_def listed using none by (simp add: c)
qed

lemma example_create:
  "db_insert (Authenticated alice) 3 row2 create_payload
     [example_row row1 alice pharmacy True] =
   Inr [example_row row1 alice pharmacy True, new_row 3 row2 create_payload]"
proof -
  have "read_payload create_payload = Some create_payload"
    by (simp add: read_payload_def create_payload_def uuid_examples)
  from db_insert_new [OF this, of row2 "[example_row row1 alice pharmacy True]" 3]
  show ?thesis
    by (simp add: create_payload_def example_row_def row_ids_differ)
qed

theorem C9_approve_then_list_witness:
  "db_insert (Authenticated alice) 3 row2 create_payload
     [example_row row1 alice pharmacy True] =
     Inr [example_row row1 alice pharmacy True, new_row 3 row2 create_payload] \<and>
   uuid_in clinic = Some clinic \<and> uuid_in row2 = Some row2 \<and> userData alice_env = Some alice \<and>
   link alice_env = Delivered \<and>
   filter (\<lambda>r. user_id r = alice \<and> provider_id r = clinic)
     (userConsents (fst (fetchConsentRecords alice_env
        (fst (approve_onClick alice_env (new_row 3 row2 create_payload)
           (initial_state [example_row row1 alice pharmacy True, new_row 3 row2 create_payload])))))) =
   [\<lparr>id_c = row2, user_id = alice, provider_id = clinic, lab_results = True,
     medications = False, fitness_data = False, approved = True, created_at = 3,
     updated_at = 5\<rparr>]"
  using C9_approve_then_list [of alice 3 row2 clinic "Some True" None None
          "[example_row row1 alice pharmacy True]"
          "[example_row row1 alice pharmacy True, new_row 3 row2 create_payload]" clinic alice_env
          "initial_state [example_row row1 alice pharmacy True, new_row 3 row2 create_payload]"]
    example_create
  by (simp add: create_payload_def alice_env_simps uuid_examples initial_state_def new_row_def
        or_default_def Let_def)

text \<open>
  Claim C10 says that a second access request fails on the unique index, against the
  record the first one left. The row an access request proposes does always have the
  provider id \<^verbatim>\<open>generic-provider\<close>, but that is not the text of a uuid: the database
  refuses every such insert at the column \<^verbatim>\<open>provider_id\<close>, whoever sends it and whatever
  the table holds, and the handler leaves the table as it is. Two requests in a row from
  the empty table leave it empty, each with its line on the console.
\<close>

theorem C10_generic_provider_refused:
  "p_provider_id (access_request_payload u data) = ''generic-provider'' \<and>
   db_insert pr now gen (access_request_payload u data) t = Inl invalid_text_representation \<and>
   database (fst (handleAccessRequest e data s)) = database s \<and>
   snd (handleAccessRequest e data s) = Resolved \<and>
   database (fst (run_actions two_requests (initial_state []))) = [] \<and>
   console (fst (run_actions two_requests (initial_state []))) =
     [''Error creating consent record:'', ''Error creating consent record:'']"
proof -
  have unchanged: "database (fst (handleAccessRequest e data s)) = database s" for e data s
  proof (cases "userData e")
    case None
    then show ?thesis by (simp add: handleAccessRequest_def console_error_def)
  next
    case (Some uid)
    have "isl (access_request e uid data (database s))"
      by (simp add: access_request_refused)
    with Some show ?thesis
      using isl_unchanged [where run = "access_request e uid data" and s = s and e = e]
      by (simp add: handleAccessRequest_def)
  qed
  have resolved: "snd (handleAccessRequest e data s) = Resolved"
    by (simp add: handleAccessRequest_def log_only_send split: option.splits)
  have later: "userData (alice_env\<lparr>db_now := 9, db_uuid := row1\<rparr>) = Some alice"
    "link (alice_env\<lparr>db_now := 9, db_uuid := row1\<rparr>) = Delivered"
    by (simp_all add: alice_env_def)
  have twice: "database (fst (run_actions two_requests (initial_state []))) = [] \<and>
     console (fst (run_actions two_requests (initial_state []))) =
       [''Error creating consent record:'', ''Error creating consent record:'']"
    by (simp add: two_requests_def handleAccessRequest_def alice_env_simps later
          access_request_refused log_only_send_refused initial_state_def)
  show ?thesis
    using unchanged resolved twice
    by (simp add: access_request_payload_def db_insert_def read_payload_def not_uuid
          split: option.splits)
qed

end
